theory Spec2Isabelle
  imports Complex_Main
begin

section \<open>Numbers, exceptions and the numeric primitives\<close>

text \<open>
  A C++ \<^verbatim>\<open>double\<close> is a finite number, one of the two infinities, or not-a-number.
  The classification (\<^verbatim>\<open>std::isnan\<close>, \<^verbatim>\<open>std::isfinite\<close>) and the comparison are
  exact on this representation. Arithmetic and the leaf functions are rounded in the
  program, so they are not defined here: every operation of the model receives them in
  a record of primitives, and a theorem that holds for every such record holds for the
  rounded arithmetic as well.
\<close>

datatype double = Finite real | PosInf | NegInf | NaN

fun isnan :: "double \<Rightarrow> bool" where
  "isnan NaN = True"
| "isnan _ = False"

fun is_finite :: "double \<Rightarrow> bool" where
  "is_finite (Finite _) = True"
| "is_finite _ = False"

text \<open>The comparison \<^verbatim>\<open>x <= y\<close> of two doubles; false as soon as one side is NaN.\<close>

fun dle :: "double \<Rightarrow> double \<Rightarrow> bool" where
  "dle NaN _ = False"
| "dle _ NaN = False"
| "dle NegInf _ = True"
| "dle _ PosInf = True"
| "dle (Finite x) (Finite y) = (x \<le> y)"
| "dle _ _ = False"

text \<open>
  The primitives on doubles that the sources call and that live outside the files at
  hand: the arithmetic of the machine, Eigen's sum reduction, and the scalar functions
  of \<^verbatim>\<open>stan/math/prim\<close>.
\<close>

record prim =
  d_add :: "double \<Rightarrow> double \<Rightarrow> double"
  d_sub :: "double \<Rightarrow> double \<Rightarrow> double"
  d_mul :: "double \<Rightarrow> double \<Rightarrow> double"
  d_log :: "double \<Rightarrow> double"
  d_exp :: "double \<Rightarrow> double"
  d_sum :: "double list \<Rightarrow> double"
  d_log_sum_exp :: "double list \<Rightarrow> double"
  d_log1p_exp :: "double \<Rightarrow> double"
  d_inv_logit :: "double \<Rightarrow> double"
  d_trunc :: "double \<Rightarrow> double"

text \<open>
  An abnormal end of a call: a C++ exception, a failed assertion that aborts the program,
  or a step whose behaviour C++ leaves undefined. The handler of \<^verbatim>\<open>integrate_1d_tsc\<close> is
  \<^verbatim>\<open>catch (const std::exception& e)\<close>, so the model keeps apart the exceptions that
  derive from \<^verbatim>\<open>std::exception\<close> and a thrown object of any other type.
\<close>

datatype exn =
    Domain_error string string
  | Invalid_argument string
  | Out_of_range string
  | Std_exception string
  | Non_std string
  | Assertion_failure string
  | Undefined_behaviour string

fun is_std_exception :: "exn \<Rightarrow> bool" where
  "is_std_exception (Non_std _) = False"
| "is_std_exception (Assertion_failure _) = False"
| "is_std_exception (Undefined_behaviour _) = False"
| "is_std_exception _ = True"

subsection \<open>Validation helpers\<close>

text \<open>
  Modelled from the spec: \<^verbatim>\<open>check_finite\<close>, \<^verbatim>\<open>check_not_nan\<close>, \<^verbatim>\<open>check_bounded\<close> and
  \<^verbatim>\<open>check_consistent_sizes\<close> of \<^verbatim>\<open>stan/math/prim/scal/err\<close> are called by the sources
  but are not among them. The spec gives their contract: a check fails with a reported
  error, before any numerical work, when the property it names is violated. The error
  carries the function name and the argument name the caller passes.
\<close>

definition check_finite :: "string \<Rightarrow> string \<Rightarrow> double list \<Rightarrow> exn + unit" where
  "check_finite function name xs =
     (if list_all is_finite xs then Inr () else Inl (Domain_error function name))"

definition check_not_nan :: "string \<Rightarrow> string \<Rightarrow> double list \<Rightarrow> exn + unit" where
  "check_not_nan function name xs =
     (if list_all (\<lambda>x. \<not> isnan x) xs then Inr () else Inl (Domain_error function name))"

definition check_bounded ::
  "string \<Rightarrow> string \<Rightarrow> double list \<Rightarrow> double \<Rightarrow> double \<Rightarrow> exn + unit" where
  "check_bounded function name xs low high =
     (if list_all (\<lambda>x. dle low x \<and> dle x high) xs then Inr ()
      else Inl (Domain_error function name))"

definition check_consistent_sizes ::
  "string \<Rightarrow> string \<Rightarrow> nat \<Rightarrow> string \<Rightarrow> nat \<Rightarrow> exn + unit" where
  "check_consistent_sizes function name1 size1 name2 size2 =
     (if size1 = size2 then Inr () else Inl (Invalid_argument function))"

section \<open>The tape\<close>

text \<open>
  Modelled from the spec: the reverse-mode core (\<^verbatim>\<open>stan/math/rev/core\<close>) is used by the
  sources but is not among them. Following the spec's data model, the tape is an
  append-only list of nodes, a handle is an index into it, and the nested regions are a
  stack of checkpoints, each the length of the tape when the region was opened. A node
  has a value, an adjoint and a chain rule; the node kinds are the ones the sources
  build: a leaf, the node of \<^verbatim>\<open>log1p_exp\<close>, and the node that \<^verbatim>\<open>operands_and_partials\<close>
  builds from operands and their recorded partials.
\<close>

datatype chain_kind =
    Leaf
  | Log1p_exp_v nat
  | Partials "(nat \<times> double) list"

record vari =
  val :: double
  adj :: double
  kind :: chain_kind

record tape =
  var_stack :: "vari list"
  nested_var_stack_sizes :: "nat list"

datatype ret = Dbl double | Var nat

datatype operands = Doubles "double list" | Vars "nat list"

definition push_node :: "vari \<Rightarrow> tape \<Rightarrow> nat \<times> tape" where
  "push_node v t = (length (var_stack t), t\<lparr>var_stack := var_stack t @ [v]\<rparr>)"

fun length_ops :: "operands \<Rightarrow> nat" where
  "length_ops (Doubles ds) = length ds"
| "length_ops (Vars hs) = length hs"

fun is_constant_struct :: "operands \<Rightarrow> bool" where
  "is_constant_struct (Doubles _) = True"
| "is_constant_struct (Vars _) = False"

fun handles :: "operands \<Rightarrow> nat list" where
  "handles (Doubles _) = []"
| "handles (Vars hs) = hs"

fun value_of :: "tape \<Rightarrow> operands \<Rightarrow> double list" where
  "value_of t (Doubles ds) = ds"
| "value_of t (Vars hs) = map (\<lambda>h. val (var_stack t ! h)) hs"


subsection \<open>The scalar node of log1p_exp\<close>

text \<open>
  \<^verbatim>\<open>log1p_exp_v_vari\<close> of \<^verbatim>\<open>rev/fun/log1p_exp.hpp\<close>: the constructor computes the value
  from the operand's value, and \<^verbatim>\<open>chain()\<close> is
  \<^verbatim>\<open>avi_->adj_ += adj_ * inv_logit(avi_->val_)\<close>.
\<close>

definition log1p_exp_v_vari :: "prim \<Rightarrow> vari list \<Rightarrow> nat \<Rightarrow> vari" where
  "log1p_exp_v_vari E vs avi =
     \<lparr>val = d_log1p_exp E (val (vs ! avi)), adj = Finite 0, kind = Log1p_exp_v avi\<rparr>"

definition log1p_exp_v_vari_chain :: "prim \<Rightarrow> vari \<Rightarrow> vari \<Rightarrow> vari" where
  "log1p_exp_v_vari_chain E this avi =
     avi\<lparr>adj := d_add E (adj avi) (d_mul E (adj this) (d_inv_logit E (val avi)))\<rparr>"

definition log1p_exp :: "prim \<Rightarrow> nat \<Rightarrow> tape \<Rightarrow> nat \<times> tape" where
  "log1p_exp E a t = push_node (log1p_exp_v_vari E (var_stack t) a) t"

subsection \<open>Chain step, reverse pass and nested regions\<close>

definition add_adj :: "prim \<Rightarrow> nat \<Rightarrow> double \<Rightarrow> vari list \<Rightarrow> vari list" where
  "add_adj E a d vs = vs[a := (vs ! a)\<lparr>adj := d_add E (adj (vs ! a)) d\<rparr>]"

definition chain :: "prim \<Rightarrow> nat \<Rightarrow> vari list \<Rightarrow> vari list" where
  "chain E i vs =
     (case kind (vs ! i) of
        Leaf \<Rightarrow> vs
      | Log1p_exp_v a \<Rightarrow> vs[a := log1p_exp_v_vari_chain E (vs ! i) (vs ! a)]
      | Partials es \<Rightarrow>
          fold (\<lambda>(a, p) ws. add_adj E a (d_mul E (adj (ws ! i)) p) ws) es vs)"

definition nested_begin :: "tape \<Rightarrow> nat" where
  "nested_begin t = (case nested_var_stack_sizes t of [] \<Rightarrow> 0 | c # _ \<Rightarrow> c)"

text \<open>
  The reverse pass started from a result node: its adjoint is set to one, and the nodes
  are chained from the newest down to the checkpoint of the innermost nested region (down
  to the first node when no region is open).
\<close>

definition grad :: "prim \<Rightarrow> nat \<Rightarrow> tape \<Rightarrow> tape" where
  "grad E vi t =
     (let vs = (var_stack t)[vi := (var_stack t ! vi)\<lparr>adj := Finite 1\<rparr>]
      in t\<lparr>var_stack := fold (chain E) (rev [nested_begin t..<length vs]) vs\<rparr>)"

definition start_nested :: "tape \<Rightarrow> tape" where
  "start_nested t =
     t\<lparr>nested_var_stack_sizes := length (var_stack t) # nested_var_stack_sizes t\<rparr>"

text \<open>
  Leaving a region truncates the tape to the checkpoint and pops it. No region being
  open is a tape-discipline error in the spec, which the integrator cannot reach (it
  opens the region first); the model leaves the tape as it is there.
\<close>

definition recover_memory_nested :: "tape \<Rightarrow> tape" where
  "recover_memory_nested t =
     (case nested_var_stack_sizes t of
        [] \<Rightarrow> t
      | c # cs \<Rightarrow> t\<lparr>var_stack := take c (var_stack t), nested_var_stack_sizes := cs\<rparr>)"

definition set_zero_all_adjoints_nested :: "tape \<Rightarrow> tape" where
  "set_zero_all_adjoints_nested t =
     (case nested_var_stack_sizes t of
        [] \<Rightarrow> t
      | c # _ \<Rightarrow>
          t\<lparr>var_stack := take c (var_stack t)
                @ map (\<lambda>v. v\<lparr>adj := Finite 0\<rparr>) (drop c (var_stack t))\<rparr>)"

text \<open>\<^verbatim>\<open>to_var\<close> on a container of doubles: one fresh leaf per value, in order.\<close>

definition to_var :: "double list \<Rightarrow> tape \<Rightarrow> nat list \<times> tape" where
  "to_var ds t =
     ([length (var_stack t)..<length (var_stack t) + length ds],
      t\<lparr>var_stack := var_stack t
           @ map (\<lambda>d. \<lparr>val = d, adj = Finite 0, kind = Leaf\<rparr>) ds\<rparr>)"

subsection \<open>Operands and partials\<close>

text \<open>
  Modelled from the spec: \<^verbatim>\<open>operands_and_partials\<close> is used by the sources but is not
  among them. Per the spec, an edge of a differentiable argument holds a
  zero-initialised partial per element, a constant argument has no edge, and
  \<^verbatim>\<open>build(value)\<close> allocates exactly one node whose operands are the differentiable
  input elements and whose chain coefficients are the recorded partials; with no
  differentiable argument it returns the bare value.
\<close>

definition zero_partials :: "nat \<Rightarrow> double list" where
  "zero_partials n = replicate n (Finite 0)"

definition build :: "(nat \<times> double) list \<Rightarrow> double \<Rightarrow> tape \<Rightarrow> nat \<times> tape" where
  "build edges v t = push_node \<lparr>val = v, adj = Finite 0, kind = Partials edges\<rparr> t"


section \<open>The 1-D integrator\<close>

text \<open>
  Modelled from the spec: \<^verbatim>\<open>de_integrator\<close> is called by the integrator but is not among
  the sources. The spec's contract is
  \<^verbatim>\<open>quadrature(oracle: double -> double, a, b, tre, tae) -> double\<close>: the routine can do
  nothing with the integrand but evaluate it. It is therefore a strategy: it either
  finishes, with a value or with an exception of its own, or asks for the integrand at
  a point and goes on from the answer. An exception of the integrand leaves the routine
  at once. The integrand may change a state \<open>'s\<close> (the tape, in nested-AD mode).
\<close>

datatype quad = Done "exn + double" | Eval double "double \<Rightarrow> quad"

primrec run_quad ::
  "quad \<Rightarrow> (double \<Rightarrow> 's \<Rightarrow> (exn + double) \<times> 's) \<Rightarrow> 's \<Rightarrow> (exn + double) \<times> 's" where
  "run_quad (Done r) = (\<lambda>h s. (r, s))"
| "run_quad (Eval x k) =
     (\<lambda>h s. case h x s of
               (Inl e, s') \<Rightarrow> (Inl e, s')
             | (Inr y, s') \<Rightarrow> run_quad (k y) h s')"

type_synonym de = "double \<Rightarrow> double \<Rightarrow> double \<Rightarrow> double \<Rightarrow> quad"

definition de_integrator ::
  "de \<Rightarrow> (double \<Rightarrow> 's \<Rightarrow> (exn + double) \<times> 's) \<Rightarrow> double \<Rightarrow> double \<Rightarrow> double \<Rightarrow> double
     \<Rightarrow> 's \<Rightarrow> (exn + double) \<times> 's" where
  "de_integrator D h a b tre tae s = run_quad (D a b tre tae) h s"

text \<open>An integrand on plain doubles leaves the state alone.\<close>

definition pure_integrand ::
  "(double \<Rightarrow> exn + double) \<Rightarrow> double \<Rightarrow> 's \<Rightarrow> (exn + double) \<times> 's" where
  "pure_integrand h x s = (h x, s)"

text \<open>
  The functor \<^verbatim>\<open>f\<close> is a template: called with plain parameters it computes a double,
  called with differentiable parameters it appends nodes to the tape and returns the
  handle of its result. Either call may throw. (What \<^verbatim>\<open>f\<close> writes to \<^verbatim>\<open>msgs\<close> is not
  modelled.)
\<close>

record f_oracle =
  f_double :: "double \<Rightarrow> double list \<Rightarrow> exn + double"
  f_var :: "double \<Rightarrow> nat list \<Rightarrow> tape \<Rightarrow> (exn + nat) \<times> tape"

text \<open>
  The quadratures the integrator starts, in the order it starts them: a ghost log, one
  entry for each call site of \<^verbatim>\<open>de_integrator\<close> that is reached.
\<close>

datatype quad_call = Quad_f | Quad_g int | Quad_gradient_of_f nat

subsection \<open>Analytic-gradient mode\<close>

primrec grad_loop ::
  "de \<Rightarrow> (double \<Rightarrow> double list \<Rightarrow> int \<Rightarrow> exn + double) \<Rightarrow> double \<Rightarrow> double
     \<Rightarrow> double \<Rightarrow> double \<Rightarrow> double list \<Rightarrow> nat list
     \<Rightarrow> (exn + double list) \<times> quad_call list" where
  "grad_loop D g a b tre tae value_of_param [] = (Inr [], [])"
| "grad_loop D g a b tre tae value_of_param (n # ns) =
     (case fst (de_integrator D (pure_integrand (\<lambda>x. g x value_of_param (int (n + 1))))
                  a b tre tae ()) of
        Inl e \<Rightarrow> (Inl e, [Quad_g (int (n + 1))])
      | Inr y \<Rightarrow>
          (case grad_loop D g a b tre tae value_of_param ns of
             (Inl e, tr) \<Rightarrow> (Inl e, Quad_g (int (n + 1)) # tr)
           | (Inr ys, tr) \<Rightarrow> (Inr (y # ys), Quad_g (int (n + 1)) # tr)))"

definition integrate_1d_tsc_tscg ::
  "prim \<Rightarrow> de \<Rightarrow> (double \<Rightarrow> double list \<Rightarrow> exn + double)
     \<Rightarrow> (double \<Rightarrow> double list \<Rightarrow> int \<Rightarrow> exn + double)
     \<Rightarrow> double \<Rightarrow> double \<Rightarrow> operands \<Rightarrow> double \<Rightarrow> double \<Rightarrow> tape
     \<Rightarrow> (exn + ret) \<times> tape \<times> quad_call list" where
  "integrate_1d_tsc_tscg E D f g a b param tre tae t =
     (case check_finite ''integrate_1d_tsc'' ''lower limit'' [a] of
        Inl e \<Rightarrow> (Inl e, t, [])
      | Inr _ \<Rightarrow>
     (case check_finite ''integrate_1d_tsc'' ''upper limit'' [b] of
        Inl e \<Rightarrow> (Inl e, t, [])
      | Inr _ \<Rightarrow>
     (if \<not> is_constant_struct param then
        (let N = length_ops param;
             value_of_param = value_of t param
         in case grad_loop D g a b tre tae value_of_param [0..<N] of
              (Inl e, tr) \<Rightarrow> (Inl e, t, tr)
            | (Inr grads, tr) \<Rightarrow>
                (case fst (de_integrator D (pure_integrand (\<lambda>x. f x value_of_param))
                             a b tre tae ()) of
                   Inl e \<Rightarrow> (Inl e, t, tr @ [Quad_f])
                 | Inr val_ \<Rightarrow>
                     (let partials = map2 (d_add E) (zero_partials N) grads;
                          (h, t') = build (zip (handles param) partials) val_ t
                      in (Inr (Var h), t', tr @ [Quad_f]))))
      else
        (case fst (de_integrator D (pure_integrand (\<lambda>x. f x (value_of t param)))
                     a b tre tae ()) of
           Inl e \<Rightarrow> (Inl e, t, [Quad_f])
         | Inr v \<Rightarrow> (Inr (Dbl v), t, [Quad_f])))))"

subsection \<open>Nested-AD mode\<close>

definition gradient_of_f ::
  "prim \<Rightarrow> f_oracle \<Rightarrow> double \<Rightarrow> nat list \<Rightarrow> nat \<Rightarrow> tape \<Rightarrow> (exn + double) \<times> tape" where
  "gradient_of_f E f x param param_n t =
     (let t1 = set_zero_all_adjoints_nested t
      in case f_var f x param t1 of
           (Inl e, t2) \<Rightarrow> (Inl e, t2)
         | (Inr r, t2) \<Rightarrow>
             (let t3 = grad E r t2 in (Inr (adj (var_stack t3 ! param_n)), t3)))"

primrec nested_loop ::
  "prim \<Rightarrow> de \<Rightarrow> f_oracle \<Rightarrow> double \<Rightarrow> double \<Rightarrow> double \<Rightarrow> double \<Rightarrow> nat list \<Rightarrow> nat list
     \<Rightarrow> tape \<Rightarrow> (exn + double list) \<times> tape \<times> quad_call list" where
  "nested_loop E D f a b tre tae clean_param [] t = (Inr [], t, [])"
| "nested_loop E D f a b tre tae clean_param (n # ns) t =
     (case de_integrator D (\<lambda>x. gradient_of_f E f x clean_param (clean_param ! n))
             a b tre tae t of
        (Inl e, t') \<Rightarrow> (Inl e, t', [Quad_gradient_of_f n])
      | (Inr y, t') \<Rightarrow>
          (case nested_loop E D f a b tre tae clean_param ns t' of
             (Inl e, t'', tr) \<Rightarrow> (Inl e, t'', Quad_gradient_of_f n # tr)
           | (Inr ys, t'', tr) \<Rightarrow> (Inr (y # ys), t'', Quad_gradient_of_f n # tr)))"

definition integrate_1d_tsc ::
  "prim \<Rightarrow> de \<Rightarrow> f_oracle \<Rightarrow> double \<Rightarrow> double \<Rightarrow> operands \<Rightarrow> double \<Rightarrow> double \<Rightarrow> tape
     \<Rightarrow> (exn + ret) \<times> tape \<times> quad_call list" where
  "integrate_1d_tsc E D f a b param tre tae t =
     (case check_finite ''integrate_1d_tsc'' ''lower limit'' [a] of
        Inl e \<Rightarrow> (Inl e, t, [])
      | Inr _ \<Rightarrow>
     (case check_finite ''integrate_1d_tsc'' ''upper limit'' [b] of
        Inl e \<Rightarrow> (Inl e, t, [])
      | Inr _ \<Rightarrow>
     (case fst (de_integrator D (pure_integrand (\<lambda>x. f_double f x (value_of t param)))
                  a b tre tae ()) of
        Inl e \<Rightarrow> (Inl e, t, [Quad_f])
      | Inr val_ \<Rightarrow>
     (if \<not> is_constant_struct param then
        (let N = length_ops param;
             t1 = start_nested t;
             (clean_param, t2) = to_var (value_of t1 param) t1
         in case nested_loop E D f a b tre tae clean_param [0..<N] t2 of
              (Inl e, t3, tr) \<Rightarrow>
                (if is_std_exception e
                 then (Inl e, recover_memory_nested t3, Quad_f # tr)
                 else (Inl e, t3, Quad_f # tr))
            | (Inr results, t3, tr) \<Rightarrow>
                (let t4 = recover_memory_nested t3;
                     partials = map2 (d_add E) (zero_partials N) results;
                     (h, t5) = build (zip (handles param) partials) val_ t4
                 in (Inr (Var h), t5, Quad_f # tr)))
      else (Inr (Dbl val_), t, [Quad_f])))))"


section \<open>Matrix-valued nodes\<close>

text \<open>
  A \<^verbatim>\<open>var_value\<close> over a matrix is one node holding a block of values and a block of
  adjoints, both in the matrix's linear storage order.

  Modelled from the spec: \<^verbatim>\<open>make_callback_var\<close> is used by the sources but is not among
  them. Per the spec it allocates one node holding the given value, with a zero adjoint
  block of the same shape, whose chain step is the callback. The callbacks are the
  lambdas of the sources, given here as functions of the captured operand and the
  result node, returning the operand as the callback leaves it.
\<close>

record vari_matrix =
  val_m :: "double list"
  adj_m :: "double list"

definition make_callback_var :: "double list \<Rightarrow> vari_matrix" where
  "make_callback_var v = \<lparr>val_m = v, adj_m = replicate (length v) (Finite 0)\<rparr>"

text \<open>
  \<^verbatim>\<open>log1p_exp\<close> on a var matrix (\<^verbatim>\<open>rev/fun/log1p_exp.hpp\<close>). The callback is
  \<^verbatim>\<open>x.adj().array() += vi.adj().array() * inv_logit(x.val().array())\<close>.
\<close>

definition log1p_exp_var_matrix :: "prim \<Rightarrow> vari_matrix \<Rightarrow> vari_matrix" where
  "log1p_exp_var_matrix E x = make_callback_var (map (d_log1p_exp E) (val_m x))"

definition log1p_exp_var_matrix_callback ::
  "prim \<Rightarrow> vari_matrix \<Rightarrow> vari_matrix \<Rightarrow> vari_matrix" where
  "log1p_exp_var_matrix_callback E x vi =
     x\<lparr>adj_m := map2 (d_add E) (adj_m x)
                  (map2 (d_mul E) (adj_m vi) (map (d_inv_logit E) (val_m x)))\<rparr>"

text \<open>
  \<^verbatim>\<open>trunc\<close> on a var matrix (\<^verbatim>\<open>opencl/rev/trunc.hpp\<close>). The callback is
  \<^verbatim>\<open>A.adj() = select(isnan(A.val()), NOT_A_NUMBER, A.adj())\<close>.
\<close>

definition select :: "bool list \<Rightarrow> double \<Rightarrow> double list \<Rightarrow> double list" where
  "select c v els = map2 (\<lambda>b e. if b then v else e) c els"

definition trunc :: "prim \<Rightarrow> vari_matrix \<Rightarrow> vari_matrix" where
  "trunc E A = make_callback_var (map (d_trunc E) (val_m A))"

definition trunc_callback :: "vari_matrix \<Rightarrow> vari_matrix \<Rightarrow> vari_matrix" where
  "trunc_callback A res = A\<lparr>adj_m := select (map isnan (val_m A)) NaN (adj_m A)\<rparr>"

section \<open>rowwise\<close>

text \<open>
  \<^verbatim>\<open>rowwise\<close> of \<^verbatim>\<open>prim/functor/rowwise.hpp\<close>. The parameter pack is the inputs to iterate
  over (at least one: \<^verbatim>\<open>rows_equal\<close> needs a first argument), the functor, and the
  arguments passed to the functor as they are. An input is a list of rows. The functor
  may change a state \<open>'s\<close> (the tape, when it works on differentiable values) and may
  throw.

  \<^verbatim>\<open>internal::row_index\<close> returns \<^verbatim>\<open>std::forward_as_tuple(row(args, i + 1)...)\<close>: a tuple
  of references to the temporaries that the calls of \<^verbatim>\<open>row\<close> return, which are destroyed
  when \<^verbatim>\<open>row_index\<close> returns. What the functor receives for each iterated input is
  therefore a dangling reference. It carries no row: reading through it is undefined
  behaviour.
\<close>

datatype row_ref = Dangling

definition read_row :: "row_ref \<Rightarrow> exn + 'a list" where
  "read_row r = Inl (Undefined_behaviour ''dangling row reference'')"

definition rows :: "'a list list \<Rightarrow> nat" where
  "rows x = length x"

definition rows_equal :: "'a list list \<Rightarrow> 'a list list list \<Rightarrow> bool" where
  "rows_equal x1 xs = (let v = rows x1 # map rows xs in list_all (\<lambda>i. i = hd v) v)"

text \<open>
  \<^verbatim>\<open>row(x, i)\<close>, with \<open>i\<close> counted from one, is not among the sources; the library's
  \<^verbatim>\<open>row\<close> checks its index and throws \<^verbatim>\<open>std::out_of_range\<close>.
\<close>

definition row :: "'a list list \<Rightarrow> nat \<Rightarrow> exn + 'a list" where
  "row x i = (if 1 \<le> i \<and> i \<le> rows x then Inr (x ! (i - 1)) else Inl (Out_of_range ''row''))"

text \<open>
  \<^verbatim>\<open>row\<close> is called on every input, so its index check can throw; the rows it returns
  do not outlive the call.
\<close>

primrec row_index :: "'a list list list \<Rightarrow> nat \<Rightarrow> exn + row_ref list" where
  "row_index [] i = Inr []"
| "row_index (x # xs) i =
     (case row x (i + 1) of
        Inl e \<Rightarrow> Inl e
      | Inr r \<Rightarrow> (case row_index xs i of Inl e \<Rightarrow> Inl e | Inr rs \<Rightarrow> Inr (Dangling # rs)))"

text \<open>
  The rows after the first. The result matrix has as many columns as the first row's
  result has entries; assigning a row of another size fails Eigen's size assertion.
\<close>

primrec rowwise_loop ::
  "(row_ref list \<Rightarrow> 'b \<Rightarrow> 's \<Rightarrow> (exn + 'c list) \<times> 's) \<Rightarrow> 'a list list list \<Rightarrow> 'b \<Rightarrow> nat
     \<Rightarrow> nat list \<Rightarrow> 's \<Rightarrow> (exn + 'c list list) \<times> 's" where
  "rowwise_loop f t1 t2 cols [] s = (Inr [], s)"
| "rowwise_loop f t1 t2 cols (i # is) s =
     (case row_index t1 i of
        Inl e \<Rightarrow> (Inl e, s)
      | Inr r \<Rightarrow>
          (case f r t2 s of
             (Inl e, s') \<Rightarrow> (Inl e, s')
           | (Inr y, s') \<Rightarrow>
               if length y \<noteq> cols then (Inl (Assertion_failure ''row size''), s')
               else (case rowwise_loop f t1 t2 cols is s' of
                       (Inl e, s'') \<Rightarrow> (Inl e, s'')
                     | (Inr ys, s'') \<Rightarrow> (Inr (y # ys), s''))))"

definition rowwise ::
  "'a list list \<Rightarrow> 'a list list list
     \<Rightarrow> (row_ref list \<Rightarrow> 'b \<Rightarrow> 's \<Rightarrow> (exn + 'c list) \<times> 's) \<Rightarrow> 'b \<Rightarrow> 's
     \<Rightarrow> (exn + 'c list list) \<times> 's" where
  "rowwise x1 xs f t2 s =
     (let t1 = x1 # xs;
          eqrows = rows_equal x1 xs
      in if \<not> eqrows
         then (Inl (Invalid_argument
                 ''Inputs to be iterated over must have the same number of rows!''), s)
         else
           (let rs = rows x1
            in case row_index t1 0 of
                 Inl e \<Rightarrow> (Inl e, s)
               | Inr r0 \<Rightarrow>
                   (case f r0 t2 s of
                      (Inl e, s') \<Rightarrow> (Inl e, s')
                    | (Inr iter_0, s') \<Rightarrow>
                        (case rowwise_loop f t1 t2 (length iter_0) [1..<rs] s' of
                           (Inl e, s'') \<Rightarrow> (Inl e, s'')
                         | (Inr rest, s'') \<Rightarrow> (Inr (iter_0 # rest), s'')))))"


section \<open>log_mix\<close>

text \<open>
  \<^verbatim>\<open>log_mix\<close> of \<^verbatim>\<open>prim/mat/fun/log_mix.hpp\<close>. \<^verbatim>\<open>theta\<close> is a vector of doubles or of
  vars, \<^verbatim>\<open>lambda\<close> an array of such vectors. The matrix \<^verbatim>\<open>lam_dbl\<close> has \<open>M\<close> rows and
  \<open>N\<close> columns and is kept as its list of rows.

  The source fills \<^verbatim>\<open>lam_dbl(m, n)\<close> from \<^verbatim>\<open>lam_vec[n][m]\<close> for every \<open>n < N\<close> and
  \<open>m < M\<close> before it checks anything. Where a \<^verbatim>\<open>lambda[n]\<close> is shorter than \<^verbatim>\<open>theta\<close>
  that read is past the end of the vector: Eigen's index assertion fails and aborts the
  program (with assertions compiled out the behaviour is undefined), and the checks
  are never reached.
\<close>

datatype operands_vec = Doubles_vec "double list list" | Vars_vec "nat list list"

fun length_mvt :: "operands_vec \<Rightarrow> nat" where
  "length_mvt (Doubles_vec ds) = length ds"
| "length_mvt (Vars_vec hs) = length hs"

fun is_constant_all_vec :: "operands_vec \<Rightarrow> bool" where
  "is_constant_all_vec (Doubles_vec _) = True"
| "is_constant_all_vec (Vars_vec _) = False"

fun handles_vec :: "operands_vec \<Rightarrow> nat list list" where
  "handles_vec (Doubles_vec _) = []"
| "handles_vec (Vars_vec hs) = hs"

fun value_of_vec :: "tape \<Rightarrow> operands_vec \<Rightarrow> double list list" where
  "value_of_vec t (Doubles_vec ds) = ds"
| "value_of_vec t (Vars_vec hs) = map (\<lambda>v. map (\<lambda>h. val (var_stack t ! h)) v) hs"

definition lam_dbl_fill :: "nat \<Rightarrow> double list list \<Rightarrow> exn + double list list" where
  "lam_dbl_fill M lam_vec =
     (if list_all (\<lambda>l. M \<le> length l) lam_vec
      then Inr (map (\<lambda>m. map (\<lambda>n. lam_vec ! n ! m) [0..<length lam_vec]) [0..<M])
      else Inl (Assertion_failure ''index out of range''))"

definition col :: "nat \<Rightarrow> 'a list list \<Rightarrow> 'a list" where
  "col n A = map (\<lambda>r. r ! n) A"

definition colwise_add :: "prim \<Rightarrow> double list list \<Rightarrow> double list \<Rightarrow> double list list" where
  "colwise_add E A v = map2 (\<lambda>r x. map (\<lambda>a. d_add E a x) r) A v"

definition rowwise_sub_exp ::
  "prim \<Rightarrow> double list list \<Rightarrow> double list \<Rightarrow> double list list" where
  "rowwise_sub_exp E A v = map (\<lambda>r. map2 (\<lambda>a l. d_exp E (d_sub E a l)) r v) A"

primrec check_lambda ::
  "nat \<Rightarrow> double list list \<Rightarrow> exn + unit" where
  "check_lambda M [] = Inr ()"
| "check_lambda M (l # ls) =
     (case check_not_nan ''log_mix'' ''lambda'' l of
        Inl e \<Rightarrow> Inl e
      | Inr _ \<Rightarrow>
     (case check_finite ''log_mix'' ''lambda'' l of
        Inl e \<Rightarrow> Inl e
      | Inr _ \<Rightarrow>
     (case check_consistent_sizes ''log_mix'' ''theta'' M ''lambda'' (length l) of
        Inl e \<Rightarrow> Inl e
      | Inr _ \<Rightarrow> check_lambda M ls)))"

definition log_mix_checks :: "double list \<Rightarrow> double list list \<Rightarrow> exn + unit" where
  "log_mix_checks theta_v lam_v =
     (case check_bounded ''log_mix'' ''theta'' theta_v (Finite 0) (Finite 1) of
        Inl e \<Rightarrow> Inl e
      | Inr _ \<Rightarrow>
     (case check_not_nan ''log_mix'' ''theta'' theta_v of
        Inl e \<Rightarrow> Inl e
      | Inr _ \<Rightarrow>
     (case check_finite ''log_mix'' ''theta'' theta_v of
        Inl e \<Rightarrow> Inl e
      | Inr _ \<Rightarrow> check_lambda (length theta_v) lam_v)))"

text \<open>The value and the partials that the source computes once the checks have passed.\<close>

definition log_mix_logp :: "prim \<Rightarrow> double list list \<Rightarrow> double list \<Rightarrow> nat \<Rightarrow> double list" where
  "log_mix_logp E lam_dbl theta_dbl N =
     map (\<lambda>n. d_log_sum_exp E (col n (colwise_add E lam_dbl (map (d_log E) theta_dbl))))
       [0..<N]"

definition log_mix ::
  "prim \<Rightarrow> operands \<Rightarrow> operands_vec \<Rightarrow> tape \<Rightarrow> (exn + ret) \<times> tape" where
  "log_mix E theta lambda t =
     (let N = length_mvt lambda;
          M = length_ops theta;
          theta_dbl = value_of t theta;
          lam_vec = value_of_vec t lambda
      in case lam_dbl_fill M lam_vec of
           Inl e \<Rightarrow> (Inl e, t)
         | Inr lam_dbl \<Rightarrow>
      (case log_mix_checks theta_dbl lam_vec of
           Inl e \<Rightarrow> (Inl e, t)
         | Inr _ \<Rightarrow>
             (let logp = log_mix_logp E lam_dbl theta_dbl N;
                  derivs = rowwise_sub_exp E lam_dbl logp;
                  edge1 = (if is_constant_struct theta then []
                           else zip (handles theta) (map (d_sum E) derivs));
                  edge2 = (if is_constant_all_vec lambda then []
                           else concat (map (\<lambda>n. zip (handles_vec lambda ! n)
                                  (map2 (d_add E) (zero_partials M)
                                     (map2 (d_mul E) (col n derivs) theta_dbl))) [0..<N]))
              in if is_constant_struct theta \<and> is_constant_all_vec lambda
                 then (Inr (Dbl (d_sum E logp)), t)
                 else (let (h, t') = build (edge1 @ edge2) (d_sum E logp) t
                       in (Inr (Var h), t')))))"

section \<open>A concrete instance\<close>

text \<open>
  The theorems below hold for every record of primitives and every quadrature
  strategy. To run the model on concrete inputs, this section gives one instance:
  arithmetic without rounding on the finite doubles, with the usual rules for the
  infinities and NaN, and the one-point midpoint rule as the quadrature.
\<close>

fun exact_add :: "double \<Rightarrow> double \<Rightarrow> double" where
  "exact_add NaN _ = NaN"
| "exact_add _ NaN = NaN"
| "exact_add (Finite x) (Finite y) = Finite (x + y)"
| "exact_add PosInf NegInf = NaN"
| "exact_add NegInf PosInf = NaN"
| "exact_add PosInf _ = PosInf"
| "exact_add _ PosInf = PosInf"
| "exact_add NegInf _ = NegInf"
| "exact_add _ NegInf = NegInf"

fun exact_neg :: "double \<Rightarrow> double" where
  "exact_neg (Finite x) = Finite (- x)"
| "exact_neg PosInf = NegInf"
| "exact_neg NegInf = PosInf"
| "exact_neg NaN = NaN"

fun exact_sgn :: "double \<Rightarrow> real" where
  "exact_sgn (Finite x) = sgn x"
| "exact_sgn PosInf = 1"
| "exact_sgn NegInf = - 1"
| "exact_sgn NaN = 0"

fun exact_mul :: "double \<Rightarrow> double \<Rightarrow> double" where
  "exact_mul NaN _ = NaN"
| "exact_mul _ NaN = NaN"
| "exact_mul (Finite x) (Finite y) = Finite (x * y)"
| "exact_mul x y =
     (if exact_sgn x * exact_sgn y = 0 then NaN
      else if exact_sgn x * exact_sgn y > 0 then PosInf else NegInf)"

fun exact_log :: "double \<Rightarrow> double" where
  "exact_log (Finite x) = (if x < 0 then NaN else if x = 0 then NegInf else Finite (ln x))"
| "exact_log PosInf = PosInf"
| "exact_log _ = NaN"

fun exact_exp :: "double \<Rightarrow> double" where
  "exact_exp (Finite x) = Finite (exp x)"
| "exact_exp PosInf = PosInf"
| "exact_exp NegInf = Finite 0"
| "exact_exp NaN = NaN"

fun exact_inv_logit :: "double \<Rightarrow> double" where
  "exact_inv_logit (Finite x) = Finite (1 / (1 + exp (- x)))"
| "exact_inv_logit PosInf = Finite 1"
| "exact_inv_logit NegInf = Finite 0"
| "exact_inv_logit NaN = NaN"

fun exact_trunc :: "double \<Rightarrow> double" where
  "exact_trunc (Finite x) = Finite (if x < 0 then of_int \<lceil>x\<rceil> else of_int \<lfloor>x\<rfloor>)"
| "exact_trunc x = x"

definition exact_sum :: "double list \<Rightarrow> double" where
  "exact_sum xs = foldl exact_add (Finite 0) xs"

definition exact :: prim where
  "exact =
     \<lparr>d_add = exact_add,
      d_sub = (\<lambda>x y. exact_add x (exact_neg y)),
      d_mul = exact_mul,
      d_log = exact_log,
      d_exp = exact_exp,
      d_sum = exact_sum,
      d_log_sum_exp = (\<lambda>xs. exact_log (exact_sum (map exact_exp xs))),
      d_log1p_exp = (\<lambda>x. exact_log (exact_add (Finite 1) (exact_exp x))),
      d_inv_logit = exact_inv_logit,
      d_trunc = exact_trunc\<rparr>"

definition midpoint :: de where
  "midpoint a b tre tae =
     Eval (exact_mul (Finite (1 / 2)) (exact_add a b))
       (\<lambda>y. Done (Inr (exact_mul y (exact_add b (exact_neg a)))))"


text \<open>Inputs for the examples: a tape with one variable, and an integrand linear in it.\<close>

definition tape0 :: tape where
  "tape0 = \<lparr>var_stack = [\<lparr>val = Finite 2, adj = Finite 5, kind = Leaf\<rparr>],
            nested_var_stack_sizes = []\<rparr>"

definition f_lin :: "double \<Rightarrow> double list \<Rightarrow> exn + double" where
  "f_lin x ps = Inr (exact_mul x (hd ps))"

definition g_lin :: "double \<Rightarrow> double list \<Rightarrow> int \<Rightarrow> exn + double" where
  "g_lin x ps n = (if n = 1 then Inr x else Inl (Out_of_range ''g''))"

definition F_lin :: f_oracle where
  "F_lin =
     \<lparr>f_double = f_lin,
      f_var = (\<lambda>x ps t.
        if ps \<noteq> [] \<and> hd ps < length (var_stack t) then
          (let (h, t') = push_node \<lparr>val = exact_mul x (val (var_stack t ! hd ps)),
                                   adj = Finite 0, kind = Partials [(hd ps, x)]\<rparr> t
           in (Inr h, t'))
        else (Inl (Out_of_range ''f''), t))\<rparr>"

text \<open>Integrands that throw as soon as they are called with differentiable parameters.\<close>

definition F_throw :: f_oracle where
  "F_throw = \<lparr>f_double = f_lin, f_var = (\<lambda>x ps t. (Inl (Non_std ''int''), t))\<rparr>"

definition F_domain :: f_oracle where
  "F_domain = \<lparr>f_double = f_lin, f_var = (\<lambda>x ps t. (Inl (Domain_error ''f'' ''x''), t))\<rparr>"

text \<open>
  Two tapes with an open nested region that holds a parameter and a node left by an
  earlier evaluation; they differ in their adjoints only.
\<close>

definition tape_a :: tape where
  "tape_a = \<lparr>var_stack = [\<lparr>val = Finite 2, adj = Finite 5, kind = Leaf\<rparr>,
                          \<lparr>val = Finite 3, adj = Finite 7, kind = Leaf\<rparr>,
                          \<lparr>val = Finite 9, adj = Finite 4, kind = Partials [(1, Finite 2)]\<rparr>],
             nested_var_stack_sizes = [1]\<rparr>"

definition tape_b :: tape where
  "tape_b = \<lparr>var_stack = [\<lparr>val = Finite 2, adj = Finite 0, kind = Leaf\<rparr>,
                          \<lparr>val = Finite 3, adj = Finite 1, kind = Leaf\<rparr>,
                          \<lparr>val = Finite 9, adj = Finite 8, kind = Partials [(1, Finite 2)]\<rparr>],
             nested_var_stack_sizes = [1]\<rparr>"

text \<open>
  A quadrature that evaluates the integrand at the lower bound and throws when the
  value there is one.
\<close>

definition fail_on_one :: de where
  "fail_on_one a b tre tae =
     Eval a (\<lambda>y. if y = Finite 1 then Done (Inl (Domain_error ''de_integrator'' ''error''))
                  else Done (Inr y))"

text \<open>
  The integrand \<open>f(x, p) = p / x\<close>, whose partial for \<open>p\<close> is \<open>1 / x\<close>, infinite at
  \<open>x = 0\<close>; a tape with a fresh region holding the parameter, and the tape one
  evaluation at \<open>x = 0\<close> leaves.
\<close>

fun exact_recip :: "double \<Rightarrow> double" where
  "exact_recip (Finite x) = (if x = 0 then PosInf else Finite (1 / x))"
| "exact_recip PosInf = Finite 0"
| "exact_recip NegInf = Finite 0"
| "exact_recip NaN = NaN"

definition F_recip :: f_oracle where
  "F_recip =
     \<lparr>f_double = (\<lambda>x ps. Inr (exact_mul (exact_recip x) (hd ps))),
      f_var = (\<lambda>x ps t.
        if ps \<noteq> [] \<and> hd ps < length (var_stack t) then
          (let (h, t') = push_node \<lparr>val = exact_mul (exact_recip x) (val (var_stack t ! hd ps)),
                                   adj = Finite 0, kind = Partials [(hd ps, exact_recip x)]\<rparr> t
           in (Inr h, t'))
        else (Inl (Out_of_range ''f''), t))\<rparr>"

definition tape_fresh :: tape where
  "tape_fresh = \<lparr>var_stack = [\<lparr>val = Finite 2, adj = Finite 5, kind = Leaf\<rparr>,
                              \<lparr>val = Finite 3, adj = Finite 0, kind = Leaf\<rparr>],
                 nested_var_stack_sizes = [1]\<rparr>"

definition tape_stale :: tape where
  "tape_stale = \<lparr>var_stack = [\<lparr>val = Finite 2, adj = Finite 5, kind = Leaf\<rparr>,
                              \<lparr>val = Finite 3, adj = PosInf, kind = Leaf\<rparr>,
                              \<lparr>val = PosInf, adj = Finite 1, kind = Partials [(1, PosInf)]\<rparr>],
                 nested_var_stack_sizes = [1]\<rparr>"

subsection \<open>Relations between tapes, and well-behaved integrands\<close>

text \<open>
  Two node lists agree from \<open>c\<close> on when they have the same nodes (values and chain
  rules) and the same adjoints at every index from \<open>c\<close> on. Two tapes have the same
  structure when they differ in adjoints at most; they are equivalent when moreover the
  adjoints inside the innermost nested region are the same.
\<close>

definition agree_from :: "nat \<Rightarrow> vari list \<Rightarrow> vari list \<Rightarrow> bool" where
  "agree_from c vs ws \<longleftrightarrow>
     length vs = length ws
   \<and> (\<forall>i<length vs. val (vs ! i) = val (ws ! i) \<and> kind (vs ! i) = kind (ws ! i)
          \<and> (c \<le> i \<longrightarrow> adj (vs ! i) = adj (ws ! i)))"

definition same_structure :: "tape \<Rightarrow> tape \<Rightarrow> bool" where
  "same_structure t1 t2 \<longleftrightarrow>
     nested_var_stack_sizes t1 = nested_var_stack_sizes t2
   \<and> agree_from (length (var_stack t1)) (var_stack t1) (var_stack t2)"

definition adj_equiv :: "tape \<Rightarrow> tape \<Rightarrow> bool" where
  "adj_equiv t1 t2 \<longleftrightarrow>
     nested_var_stack_sizes t1 = nested_var_stack_sizes t2
   \<and> agree_from (nested_begin t1) (var_stack t1) (var_stack t2)"

text \<open>
  What the properties below ask of the caller's functor: it builds its nodes from values,
  never from adjoints (on equivalent tapes it returns the same result and leaves
  equivalent tapes), and it only appends to the tape (it leaves the stack of regions alone
  and does not shorten the node list).
\<close>

definition adjoint_blind :: "f_oracle \<Rightarrow> bool" where
  "adjoint_blind f \<longleftrightarrow>
     (\<forall>x ps t1 t2. adj_equiv t1 t2 \<longrightarrow>
        fst (f_var f x ps t1) = fst (f_var f x ps t2)
      \<and> adj_equiv (snd (f_var f x ps t1)) (snd (f_var f x ps t2)))"

definition keeps_tape :: "f_oracle \<Rightarrow> bool" where
  "keeps_tape f \<longleftrightarrow>
     (\<forall>x ps t. nested_var_stack_sizes (snd (f_var f x ps t)) = nested_var_stack_sizes t
        \<and> length (var_stack t) \<le> length (var_stack (snd (f_var f x ps t))))"

text \<open>
  The region with checkpoint \<open>c\<close> is the innermost one, and the tape holds at least \<open>n\<close>
  nodes in it.
\<close>

definition region_open :: "nat \<Rightarrow> nat list \<Rightarrow> nat \<Rightarrow> tape \<Rightarrow> bool" where
  "region_open c cs n t \<longleftrightarrow>
     nested_var_stack_sizes t = c # cs \<and> c + n \<le> length (var_stack t)"

text \<open>
  The scalar \<^verbatim>\<open>log1p_exp\<close> run on one element alone: a tape holding one variable with
  value \<open>v\<close> and adjoint \<open>a\<close>, the node \<^verbatim>\<open>log1p_exp\<close> appends for it, given the incoming
  adjoint \<open>d\<close>, and one chain step of that node. The result is the node's value and the
  variable's adjoint afterwards.
\<close>

definition log1p_exp_on_element :: "prim \<Rightarrow> double \<Rightarrow> double \<Rightarrow> double \<Rightarrow> double \<times> double" where
  "log1p_exp_on_element E v a d =
     (let t0 = \<lparr>var_stack = [\<lparr>val = v, adj = a, kind = Leaf\<rparr>], nested_var_stack_sizes = []\<rparr>;
          (r, t1) = log1p_exp E 0 t0;
          vs = chain E r ((var_stack t1)[r := (var_stack t1 ! r)\<lparr>adj := d\<rparr>])
      in (val (var_stack t1 ! r), adj (vs ! 0)))"

text \<open>
  Two functors for \<^verbatim>\<open>rowwise\<close> that count their calls in the state: one returns the
  number of references it was given, one reads through the first of them.
\<close>

definition count_rows :: "row_ref list \<Rightarrow> unit \<Rightarrow> nat \<Rightarrow> (exn + real list) \<times> nat" where
  "count_rows r u s = (Inr [real (length r)], Suc s)"

definition read_first :: "row_ref list \<Rightarrow> unit \<Rightarrow> nat \<Rightarrow> (exn + real list) \<times> nat" where
  "read_first r u s =
     (case r of
        [] \<Rightarrow> (Inr [], Suc s)
      | x # _ \<Rightarrow> (case read_row x of Inl e \<Rightarrow> (Inl e, Suc s) | Inr y \<Rightarrow> (Inr y, Suc s)))"

subsection \<open>log_mix as the spec words it\<close>

text \<open>
  The inputs that the spec has \<^verbatim>\<open>log_mix\<close> reject, over the values of \<^verbatim>\<open>theta\<close> and
  \<^verbatim>\<open>lambda\<close>: a proportion outside \<open>[0, 1]\<close>, a NaN or non-finite entry of \<^verbatim>\<open>theta\<close> or
  of a \<^verbatim>\<open>lambda[n]\<close>, and a \<^verbatim>\<open>lambda[n]\<close> whose size is not that of \<^verbatim>\<open>theta\<close>.
\<close>

definition log_mix_invalid :: "double list \<Rightarrow> double list list \<Rightarrow> bool" where
  "log_mix_invalid th lam \<longleftrightarrow>
     (\<exists>x\<in>set th. \<not> (dle (Finite 0) x \<and> dle x (Finite 1)))
   \<or> (\<exists>x\<in>set th. isnan x \<or> \<not> is_finite x)
   \<or> (\<exists>l\<in>set lam. \<exists>x\<in>set l. isnan x \<or> \<not> is_finite x)
   \<or> (\<exists>l\<in>set lam. length l \<noteq> length th)"

text \<open>
  The result as the spec states it: \<open>logp[n] = log_sum_exp(lambda[n] + log(theta))\<close>,
  the value is the sum of the \<open>logp[n]\<close>, the partial for \<open>theta[m]\<close> is the sum over \<open>n\<close>
  of \<open>exp(lambda[n][m] - logp[n])\<close>, and the partial for \<open>lambda[n][m]\<close> is
  \<open>exp(lambda[n][m] - logp[n]) * theta[m]\<close>, added onto the zero it starts from. With a
  differentiable argument the result is one new node over the differentiable elements.
\<close>

definition logp_spec :: "prim \<Rightarrow> double list \<Rightarrow> double list list \<Rightarrow> nat \<Rightarrow> double" where
  "logp_spec E th lam n = d_log_sum_exp E (map2 (d_add E) (lam ! n) (map (d_log E) th))"

definition log_mix_value_spec :: "prim \<Rightarrow> double list \<Rightarrow> double list list \<Rightarrow> double" where
  "log_mix_value_spec E th lam = d_sum E (map (logp_spec E th lam) [0..<length lam])"

definition theta_partial_spec :: "prim \<Rightarrow> double list \<Rightarrow> double list list \<Rightarrow> nat \<Rightarrow> double" where
  "theta_partial_spec E th lam m =
     d_sum E (map (\<lambda>n. d_exp E (d_sub E (lam ! n ! m) (logp_spec E th lam n))) [0..<length lam])"

definition lambda_partial_spec ::
  "prim \<Rightarrow> double list \<Rightarrow> double list list \<Rightarrow> nat \<Rightarrow> nat \<Rightarrow> double" where
  "lambda_partial_spec E th lam n m =
     d_add E (Finite 0)
       (d_mul E (d_exp E (d_sub E (lam ! n ! m) (logp_spec E th lam n))) (th ! m))"

definition log_mix_result ::
  "prim \<Rightarrow> operands \<Rightarrow> operands_vec \<Rightarrow> tape \<Rightarrow> (exn + ret) \<times> tape" where
  "log_mix_result E theta lambda t =
     (let th = value_of t theta;
          lam = value_of_vec t lambda;
          edge1 = (if is_constant_struct theta then []
                   else zip (handles theta) (map (theta_partial_spec E th lam) [0..<length th]));
          edge2 = (if is_constant_all_vec lambda then []
                   else concat (map (\<lambda>n. zip (handles_vec lambda ! n)
                                  (map (lambda_partial_spec E th lam n) [0..<length th]))
                          [0..<length lam]))
      in if is_constant_struct theta \<and> is_constant_all_vec lambda
         then (Inr (Dbl (log_mix_value_spec E th lam)), t)
         else (Inr (Var (length (var_stack t))),
               t\<lparr>var_stack := var_stack t
                    @ [\<lparr>val = log_mix_value_spec E th lam, adj = Finite 0,
                        kind = Partials (edge1 @ edge2)\<rparr>]\<rparr>))"

text \<open>A tape holding the two mixing proportions of the spec's example.\<close>

definition tape_theta :: tape where
  "tape_theta = \<lparr>var_stack = [\<lparr>val = Finite (1 / 2), adj = Finite 0, kind = Leaf\<rparr>,
                              \<lparr>val = Finite (1 / 2), adj = Finite 0, kind = Leaf\<rparr>],
                 nested_var_stack_sizes = []\<rparr>"

section \<open>Properties of the integrator\<close>

lemma grad_loop_success:
  "\<forall>n\<in>set ns. fst (de_integrator D (pure_integrand (\<lambda>x. g x vs (int (n + 1)))) a b tre tae ())
       = Inr (G n) \<Longrightarrow>
   grad_loop D g a b tre tae vs ns = (Inr (map G ns), map (\<lambda>n. Quad_g (int (n + 1))) ns)"
  by (induction ns) auto

lemma add_zero_partials:
  "length gs = N \<Longrightarrow> map2 (d_add E) (zero_partials N) gs = map (d_add E (Finite 0)) gs"
  unfolding zero_partials_def
  by (induction gs arbitrary: N) auto

text \<open>
  C1. Analytic-gradient mode with \<open>N\<close> differentiable parameters \<open>hs\<close>, finite bounds,
  and quadratures that all return: the integrator starts exactly \<open>N + 1\<close> quadratures,
  first one of \<open>g(\<cdot>, value_of(param), n)\<close> for each component \<open>n = 1, \<dots>, N\<close> (the
  functor counts components from one), then one of \<open>f(\<cdot>, value_of(param))\<close>. It
  returns one new node whose value is the result of the quadrature of \<open>f\<close> and whose
  partial for the \<open>n\<close>-th parameter is the result of the \<open>n\<close>-th gradient quadrature,
  added onto the zero the partial starts from.
\<close>

theorem analytic_gradient_quadratures:
  assumes "is_finite a" and "is_finite b"
    and "length gs = length hs"
    and "\<forall>n<length hs.
           fst (de_integrator D (pure_integrand (\<lambda>x. g x (value_of t (Vars hs)) (int (n + 1))))
                  a b tre tae ()) = Inr (gs ! n)"
    and "fst (de_integrator D (pure_integrand (\<lambda>x. f x (value_of t (Vars hs)))) a b tre tae ())
           = Inr v"
  shows "integrate_1d_tsc_tscg E D f g a b (Vars hs) tre tae t =
           (Inr (Var (length (var_stack t))),
            t\<lparr>var_stack := var_stack t
                 @ [\<lparr>val = v, adj = Finite 0,
                     kind = Partials (zip hs (map (d_add E (Finite 0)) gs))\<rparr>]\<rparr>,
            map (\<lambda>n. Quad_g (int (n + 1))) [0..<length hs] @ [Quad_f])
       \<and> length (snd (snd (integrate_1d_tsc_tscg E D f g a b (Vars hs) tre tae t)))
           = length hs + 1"
proof -
  have gs: "map (\<lambda>n. gs ! n) [0..<length hs] = gs"
    using assms(3) map_nth [of gs] by simp
  have "grad_loop D g a b tre tae (value_of t (Vars hs)) [0..<length hs]
          = (Inr (map (\<lambda>n. gs ! n) [0..<length hs]),
             map (\<lambda>n. Quad_g (int (n + 1))) [0..<length hs])"
    by (rule grad_loop_success) (use assms(4) in simp)
  then have loop: "grad_loop D g a b tre tae (value_of t (Vars hs)) [0..<length hs]
                = (Inr gs, map (\<lambda>n. Quad_g (int (n + 1))) [0..<length hs])"
    by (simp only: gs)
  have fin: "check_finite ''integrate_1d_tsc'' nm [a] = Inr ()"
            "check_finite ''integrate_1d_tsc'' nm [b] = Inr ()" for nm
    using assms(1,2) by (simp_all add: check_finite_def)
  have res: "integrate_1d_tsc_tscg E D f g a b (Vars hs) tre tae t =
           (Inr (Var (length (var_stack t))),
            t\<lparr>var_stack := var_stack t
                 @ [\<lparr>val = v, adj = Finite 0,
                     kind = Partials (zip hs (map (d_add E (Finite 0)) gs))\<rparr>]\<rparr>,
            map (\<lambda>n. Quad_g (int (n + 1))) [0..<length hs] @ [Quad_f])"
    unfolding integrate_1d_tsc_tscg_def
    using loop assms(3,5)
    by (simp add: fin add_zero_partials build_def push_node_def del: value_of.simps)
  show ?thesis unfolding res by (simp add: res)
qed

theorem analytic_gradient_quadratures_witness:
  "is_finite (Finite 0) \<and> is_finite (Finite 2)
   \<and> integrate_1d_tsc_tscg exact midpoint f_lin g_lin (Finite 0) (Finite 2) (Vars [0])
       (Finite 0) (Finite 0) tape0
     = (Inr (Var 1),
        \<lparr>var_stack = [\<lparr>val = Finite 2, adj = Finite 5, kind = Leaf\<rparr>,
                      \<lparr>val = Finite 4, adj = Finite 0, kind = Partials [(0, Finite 2)]\<rparr>],
         nested_var_stack_sizes = []\<rparr>,
        [Quad_g 1, Quad_f])"
  using analytic_gradient_quadratures [of "Finite 0" "Finite 2" "[Finite 2]" "[0]" midpoint g_lin
      tape0 "Finite 0" "Finite 0" f_lin "Finite 4" exact]
  by (simp add: de_integrator_def midpoint_def pure_integrand_def f_lin_def g_lin_def
      tape0_def exact_def)

text \<open>
  C3. When the lower or the upper bound is not finite, both integrators fail with the
  domain error of the bound check, the tape is as it was, and no quadrature has been
  started.
\<close>

theorem nonfinite_bound_rejected:
  "\<not> is_finite a \<or> \<not> is_finite b \<Longrightarrow>
     (\<exists>nm. integrate_1d_tsc E D F a b param tre tae t
            = (Inl (Domain_error ''integrate_1d_tsc'' nm), t, []))
   \<and> (\<exists>nm. integrate_1d_tsc_tscg E D f g a b param tre tae t
            = (Inl (Domain_error ''integrate_1d_tsc'' nm), t, []))"
  by (auto simp: integrate_1d_tsc_def integrate_1d_tsc_tscg_def check_finite_def)

theorem nonfinite_bound_rejected_witness:
  "\<not> is_finite PosInf
   \<and> (\<exists>nm. integrate_1d_tsc exact midpoint F_lin PosInf (Finite 1) (Vars [0])
              (Finite 0) (Finite 0) tape0
            = (Inl (Domain_error ''integrate_1d_tsc'' nm), tape0, []))
   \<and> (\<exists>nm. integrate_1d_tsc_tscg exact midpoint f_lin g_lin PosInf (Finite 1) (Vars [0])
              (Finite 0) (Finite 0) tape0
            = (Inl (Domain_error ''integrate_1d_tsc'' nm), tape0, []))"
  using nonfinite_bound_rejected [of PosInf "Finite 1" exact midpoint F_lin "Vars [0]"
      "Finite 0" "Finite 0" tape0 f_lin g_lin]
  by simp

text \<open>
  C8. With constant parameters and finite bounds, each integrator returns the result of
  the one quadrature of \<open>f\<close> at the parameter values (or its exception), starts no other
  quadrature, and leaves the tape as it was: no region is opened and no node is built.
  The result does not depend on the gradient functor \<open>g\<close>.
\<close>

theorem constant_parameters_single_quadrature:
  assumes "is_finite a" and "is_finite b"
  shows "integrate_1d_tsc_tscg E D f g a b (Doubles ps) tre tae t =
           (map_sum id Dbl
              (fst (de_integrator D (pure_integrand (\<lambda>x. f x ps)) a b tre tae ())), t, [Quad_f])
       \<and> integrate_1d_tsc E D F a b (Doubles ps) tre tae t =
           (map_sum id Dbl
              (fst (de_integrator D (pure_integrand (\<lambda>x. f_double F x ps)) a b tre tae ())),
            t, [Quad_f])"
  using assms
  by (simp add: integrate_1d_tsc_tscg_def integrate_1d_tsc_def check_finite_def
      split: sum.splits)

theorem constant_parameters_single_quadrature_witness:
  "is_finite (Finite 0) \<and> is_finite (Finite 2)
   \<and> integrate_1d_tsc_tscg exact midpoint f_lin g_lin (Finite 0) (Finite 2)
       (Doubles [Finite 3]) (Finite 0) (Finite 0) tape0
     = (Inr (Dbl (Finite 6)), tape0, [Quad_f])
   \<and> integrate_1d_tsc exact midpoint F_lin (Finite 0) (Finite 2)
       (Doubles [Finite 3]) (Finite 0) (Finite 0) tape0
     = (Inr (Dbl (Finite 6)), tape0, [Quad_f])"
  using constant_parameters_single_quadrature [of "Finite 0" "Finite 2" exact midpoint f_lin
      g_lin "[Finite 3]" "Finite 0" "Finite 0" tape0 F_lin]
  by (simp add: de_integrator_def midpoint_def pure_integrand_def f_lin_def F_lin_def)

section \<open>Properties of the matrix-valued nodes\<close>

lemma log1p_exp_on_element_eq:
  "log1p_exp_on_element E v a d = (d_log1p_exp E v, d_add E a (d_mul E d (d_inv_logit E v)))"
  by (simp add: log1p_exp_on_element_def log1p_exp_def push_node_def log1p_exp_v_vari_def
      chain_def log1p_exp_v_vari_chain_def)

text \<open>
  C4. For a var matrix \<open>x\<close> (value and adjoint blocks of one shape) the node that
  \<^verbatim>\<open>log1p_exp\<close> builds has the elementwise \<^verbatim>\<open>log1p_exp\<close> of \<open>x\<close>'s values as its value, and
  with incoming adjoint block \<open>ds\<close> its chain step leaves, at every element \<open>i\<close>, the
  adjoint \<open>x.adj[i] + ds[i] * inv_logit(x.val[i])\<close>. Value and adjoint at \<open>i\<close> are the
  ones the scalar \<^verbatim>\<open>log1p_exp\<close> gives when run on element \<open>i\<close> alone.
\<close>

theorem log1p_exp_vectorization:
  assumes "length (adj_m x) = length (val_m x)"
    and "length ds = length (val_m x)"
    and "i < length (val_m x)"
  shows "val_m (log1p_exp_var_matrix E x) = map (d_log1p_exp E) (val_m x)
       \<and> length (adj_m (log1p_exp_var_matrix E x)) = length (val_m x)
       \<and> adj_m (log1p_exp_var_matrix_callback E x ((log1p_exp_var_matrix E x)\<lparr>adj_m := ds\<rparr>)) ! i
           = d_add E (adj_m x ! i) (d_mul E (ds ! i) (d_inv_logit E (val_m x ! i)))
       \<and> (val_m (log1p_exp_var_matrix E x) ! i,
          adj_m (log1p_exp_var_matrix_callback E x ((log1p_exp_var_matrix E x)\<lparr>adj_m := ds\<rparr>)) ! i)
           = log1p_exp_on_element E (val_m x ! i) (adj_m x ! i) (ds ! i)"
  using assms
  by (simp add: log1p_exp_on_element_eq log1p_exp_var_matrix_def make_callback_var_def
      log1p_exp_var_matrix_callback_def)

theorem log1p_exp_vectorization_witness:
  "(0::nat) < length [Finite 0, Finite 1]
   \<and> val_m (log1p_exp_var_matrix exact
              \<lparr>val_m = [Finite 0, Finite 1], adj_m = [Finite 1, Finite 2]\<rparr>) ! 0
       = Finite (ln 2)
   \<and> adj_m (log1p_exp_var_matrix_callback exact
              \<lparr>val_m = [Finite 0, Finite 1], adj_m = [Finite 1, Finite 2]\<rparr>
              ((log1p_exp_var_matrix exact
                  \<lparr>val_m = [Finite 0, Finite 1], adj_m = [Finite 1, Finite 2]\<rparr>)
                 \<lparr>adj_m := [Finite 3, Finite 4]\<rparr>)) ! 0
       = Finite (5 / 2)
   \<and> log1p_exp_on_element exact (Finite 0) (Finite 1) (Finite 3) = (Finite (ln 2), Finite (5 / 2))"
  using log1p_exp_vectorization [of "\<lparr>val_m = [Finite 0, Finite 1], adj_m = [Finite 1, Finite 2]\<rparr>"
      "[Finite 3, Finite 4]" 0 exact]
  by (simp add: exact_def log1p_exp_on_element_eq log1p_exp_var_matrix_def make_callback_var_def
      log1p_exp_var_matrix_callback_def)

text \<open>
  C10. The callback of \<^verbatim>\<open>trunc\<close> gives the same operand whatever the result node holds,
  so it does not read the incoming adjoint. It keeps the operand's values, and at every
  element it keeps the operand's adjoint where the value is not NaN and sets it to NaN
  where the value is NaN.
\<close>

theorem trunc_callback_adjoint:
  assumes "length (adj_m A) = length (val_m A)" and "i < length (val_m A)"
  shows "trunc_callback A res = trunc_callback A res'
       \<and> val_m (trunc_callback A res) = val_m A
       \<and> length (adj_m (trunc_callback A res)) = length (adj_m A)
       \<and> (\<not> isnan (val_m A ! i) \<longrightarrow> adj_m (trunc_callback A res) ! i = adj_m A ! i)
       \<and> (isnan (val_m A ! i) \<longrightarrow> adj_m (trunc_callback A res) ! i = NaN)"
  using assms by (simp add: trunc_callback_def select_def)

theorem trunc_callback_adjoint_witness:
  "trunc_callback \<lparr>val_m = [Finite (3 / 2), NaN], adj_m = [Finite 3, Finite 4]\<rparr>
       \<lparr>val_m = [Finite 1, NaN], adj_m = [Finite 7, Finite 8]\<rparr>
   = \<lparr>val_m = [Finite (3 / 2), NaN], adj_m = [Finite 3, NaN]\<rparr>"
  using trunc_callback_adjoint [of "\<lparr>val_m = [Finite (3 / 2), NaN], adj_m = [Finite 3, Finite 4]\<rparr>" 1
      "\<lparr>val_m = [Finite 1, NaN], adj_m = [Finite 7, Finite 8]\<rparr>"]
    trunc_callback_adjoint [of "\<lparr>val_m = [Finite (3 / 2), NaN], adj_m = [Finite 3, Finite 4]\<rparr>" 0
      "\<lparr>val_m = [Finite 1, NaN], adj_m = [Finite 7, Finite 8]\<rparr>"]
  by (simp add: trunc_callback_def select_def)

section \<open>Properties of rowwise\<close>

lemma rows_equal_iff: "rows_equal x1 xs \<longleftrightarrow> (\<forall>x\<in>set xs. rows x = rows x1)"
  by (auto simp: rows_equal_def list_all_iff)

text \<open>
  C7. When one of the iterated inputs has another number of rows than the first,
  \<^verbatim>\<open>rowwise\<close> throws \<^verbatim>\<open>std::invalid_argument\<close> and the state is as before the call,
  whatever the functor is: the functor has not run.
\<close>

theorem rowwise_rejects_row_mismatch:
  assumes "\<exists>x\<in>set xs. rows x \<noteq> rows x1"
  shows "rowwise x1 xs f t2 s =
           (Inl (Invalid_argument
              ''Inputs to be iterated over must have the same number of rows!''), s)"
  using assms by (auto simp: rowwise_def rows_equal_iff)

theorem rowwise_rejects_row_mismatch_witness:
  "rows [[4], [5], [6], [7::real]] \<noteq> rows [[1], [2], [3::real]]
   \<and> rowwise [[1], [2], [3::real]] [[[4], [5], [6], [7]]] count_rows () 0 =
           (Inl (Invalid_argument
              ''Inputs to be iterated over must have the same number of rows!''), 0)"
  using rowwise_rejects_row_mismatch [of "[[[4], [5], [6], [7::real]]]" "[[1], [2], [3]]"
      count_rows "()" 0]
  by (simp add: rows_def)

text \<open>
  With equal row counts the functor runs once per row, on dangling references; a functor
  that reads its first row has undefined behaviour at its first call.
\<close>

lemma rowwise_example:
  "rowwise [[1], [2], [3]] [[[4], [5], [6::real]]] count_rows () 0
     = (Inr [[2], [2], [2]], 3)"
  by (simp add: rowwise_def rows_equal_def rows_def row_def count_rows_def upt_rec)

lemma rowwise_read_example:
  "rowwise [[1], [2], [3]] [[[4], [5], [6::real]]] read_first () 0
     = (Inl (Undefined_behaviour ''dangling row reference''), 1)"
  by (simp add: rowwise_def rows_equal_def rows_def row_def read_first_def read_row_def upt_rec)

section \<open>Properties of log_mix\<close>

lemma check_lambda_ok:
  "check_lambda M ls = Inr () \<longleftrightarrow>
     (\<forall>l\<in>set ls. (\<forall>x\<in>set l. \<not> isnan x \<and> is_finite x) \<and> length l = M)"
  by (induction ls)
    (auto simp: check_not_nan_def check_finite_def check_consistent_sizes_def list_all_iff)

lemma log_mix_checks_ok:
  "log_mix_checks th lam = Inr () \<longleftrightarrow> \<not> log_mix_invalid th lam"
  unfolding log_mix_checks_def log_mix_invalid_def
  by (auto simp: check_lambda_ok check_bounded_def check_not_nan_def check_finite_def
      list_all_iff)

lemma check_lambda_std: "check_lambda M ls = Inl e \<Longrightarrow> is_std_exception e"
  by (induction ls)
    (auto simp: check_not_nan_def check_finite_def check_consistent_sizes_def
      split: if_splits)

lemma log_mix_checks_std: "log_mix_checks th lam = Inl e \<Longrightarrow> is_std_exception e"
  unfolding log_mix_checks_def
  by (auto simp: check_bounded_def check_not_nan_def check_finite_def
      split: if_splits dest: check_lambda_std)

lemma lam_dbl_fill_ok:
  assumes "\<forall>l\<in>set lam. M \<le> length l"
  shows "lam_dbl_fill M lam = Inr (map (\<lambda>m. map (\<lambda>n. lam ! n ! m) [0..<length lam]) [0..<M])"
  using assms by (simp add: lam_dbl_fill_def list_all_iff)

lemma lam_dbl_fill_short:
  assumes "\<exists>l\<in>set lam. length l < M"
  shows "lam_dbl_fill M lam = Inl (Assertion_failure ''index out of range'')"
proof -
  from assms obtain l where "l \<in> set lam" and "\<not> M \<le> length l" by auto
  then have "\<not> list_all (\<lambda>l. M \<le> length l) lam"
    unfolding list_all_iff by blast
  then show ?thesis by (simp add: lam_dbl_fill_def)
qed

lemma col_colwise_add:
  assumes "n < N" and "length v = M"
  shows "col n (colwise_add E (map (\<lambda>m. map (\<lambda>n. f n m) [0..<N]) [0..<M]) v)
           = map (\<lambda>m. d_add E (f n m) (v ! m)) [0..<M]"
  using assms
  by (intro nth_equalityI) (simp_all add: col_def colwise_add_def)

lemma map2_nth:
  assumes "length xs = M" and "length ys = M"
  shows "map (\<lambda>m. g (xs ! m) (ys ! m)) [0..<M] = map2 g xs ys"
  using assms by (intro nth_equalityI) simp_all

lemma logp_consistent:
  assumes "\<forall>l\<in>set lam. length l = length th"
  shows "log_mix_logp E (map (\<lambda>m. map (\<lambda>n. lam ! n ! m) [0..<length lam]) [0..<length th])
           th (length lam) = map (logp_spec E th lam) [0..<length lam]"
  unfolding log_mix_logp_def logp_spec_def
proof (rule map_cong [OF refl])
  fix n assume "n \<in> set [0..<length lam]"
  then have n: "n < length lam" by simp
  then have len: "length (lam ! n) = length th" using assms by simp
  have "col n (colwise_add E (map (\<lambda>m. map (\<lambda>n. lam ! n ! m) [0..<length lam]) [0..<length th])
          (map (d_log E) th))
        = map (\<lambda>m. d_add E (lam ! n ! m) (map (d_log E) th ! m)) [0..<length th]"
    by (rule col_colwise_add) (use n in simp_all)
  also have "\<dots> = map2 (d_add E) (lam ! n) (map (d_log E) th)"
    by (rule map2_nth) (use len in simp_all)
  finally show "d_log_sum_exp E (col n (colwise_add E
            (map (\<lambda>m. map (\<lambda>n. lam ! n ! m) [0..<length lam]) [0..<length th])
            (map (d_log E) th)))
        = d_log_sum_exp E (map2 (d_add E) (lam ! n) (map (d_log E) th))"
    by simp
qed

lemma derivs_consistent:
  assumes "length lp = N"
  shows "rowwise_sub_exp E (map (\<lambda>m. map (\<lambda>n. f n m) [0..<N]) [0..<M]) lp
           = map (\<lambda>m. map (\<lambda>n. d_exp E (d_sub E (f n m) (lp ! n))) [0..<N]) [0..<M]"
  unfolding rowwise_sub_exp_def using assms
  by (auto intro!: nth_equalityI)

lemma col_derivs:
  assumes "n < N"
  shows "col n (map (\<lambda>m. map (\<lambda>n. h n m) [0..<N]) [0..<M]) = map (\<lambda>m. h n m) [0..<M]"
  using assms by (simp add: col_def)

lemma length_value_of [simp]: "length (value_of t theta) = length_ops theta"
  by (cases theta) simp_all

lemma length_value_of_vec [simp]: "length (value_of_vec t lambda) = length_mvt lambda"
  by (cases lambda) simp_all

lemma lambda_partials_consistent:
  assumes "length th = M"
  shows "map2 (d_add E) (zero_partials M) (map2 (d_mul E) (map h [0..<M]) th)
           = map (\<lambda>m. d_add E (Finite 0) (d_mul E (h m) (th ! m))) [0..<M]"
  using assms by (intro nth_equalityI) (simp_all add: zero_partials_def)

lemma exp_2_ln_half: "exp (2 * ln (1 / 2)) = (1 / 4::real)"
proof -
  have "exp (2 * ln (1 / 2)) = exp (ln (1 / 2)) * exp (ln (1 / 2::real))"
    using exp_add [of "ln (1 / 2::real)" "ln (1 / 2)"] by simp
  also have "\<dots> = 1 / 4" by simp
  finally show ?thesis .
qed

lemma example_logp:
  "logp_spec exact [Finite (1 / 2), Finite (1 / 2)]
     [[Finite (ln (1 / 2)), Finite (ln (3 / 2))]] 0 = Finite 0"
  by (simp add: logp_spec_def exact_def exact_sum_def exp_add exp_2_ln_half)

text \<open>
  C5. On inputs that pass the checks, \<^verbatim>\<open>log_mix\<close> returns the sum over \<open>n\<close> of
  \<open>log_sum_exp(lambda[n] + log(theta))\<close>, and the partial it records for \<open>theta[m]\<close> is
  the sum over \<open>n\<close> of \<open>exp(lambda[n][m] - logp[n])\<close>. The instance proved after it is the spec's example,
  \<open>theta = {0.5, 0.5}\<close> with the two log densities \<open>log 0.5\<close> and \<open>log 1.5\<close>, in arithmetic
  without rounding: the value is \<open>log(0.5 * exp(log 0.5) + 0.5 * exp(log 1.5))\<close> and the
  partials for \<open>theta\<close> are \<open>0.5\<close> and \<open>1.5\<close>.
\<close>

theorem log_mix_value_and_partials:
  assumes "\<not> log_mix_invalid (value_of t theta) (value_of_vec t lambda)"
  shows "log_mix E theta lambda t = log_mix_result E theta lambda t"
proof -
  let ?th = "value_of t theta" and ?lam = "value_of_vec t lambda"
  let ?M = "length_ops theta" and ?N = "length_mvt lambda"
  let ?A = "map (\<lambda>m. map (\<lambda>n. ?lam ! n ! m) [0..<?N]) [0..<?M]"
  let ?lp = "map (logp_spec E ?th ?lam) [0..<?N]"
  have ok: "log_mix_checks ?th ?lam = Inr ()"
    using assms by (simp add: log_mix_checks_ok)
  have sizes: "\<forall>l\<in>set ?lam. length l = ?M"
    using assms by (auto simp: log_mix_invalid_def)
  have A: "lam_dbl_fill ?M ?lam = Inr ?A"
    using lam_dbl_fill_ok [of ?lam ?M] sizes by simp
  have lp: "log_mix_logp E ?A ?th ?N = ?lp"
    using logp_consistent [of ?lam ?th E] sizes by simp
  have D: "rowwise_sub_exp E ?A ?lp
             = map (\<lambda>m. map (\<lambda>n. d_exp E (d_sub E (?lam ! n ! m) (?lp ! n))) [0..<?N]) [0..<?M]"
    by (rule derivs_consistent) simp
  have D': "rowwise_sub_exp E ?A ?lp
             = map (\<lambda>m. map (\<lambda>n. d_exp E (d_sub E (?lam ! n ! m) (logp_spec E ?th ?lam n)))
                 [0..<?N]) [0..<?M]"
    unfolding D by simp
  have e1: "map (d_sum E) (rowwise_sub_exp E ?A ?lp)
              = map (theta_partial_spec E ?th ?lam) [0..<?M]"
    unfolding D' by (simp add: theta_partial_spec_def comp_def)
  have e2: "map2 (d_add E) (zero_partials ?M)
              (map2 (d_mul E) (col n (rowwise_sub_exp E ?A ?lp)) ?th)
            = map (lambda_partial_spec E ?th ?lam n) [0..<?M]" if "n < ?N" for n
  proof -
    have "col n (rowwise_sub_exp E ?A ?lp)
            = map (\<lambda>m. d_exp E (d_sub E (?lam ! n ! m) (logp_spec E ?th ?lam n))) [0..<?M]"
      unfolding D' by (rule col_derivs) (rule that)
    then show ?thesis
      using lambda_partials_consistent [of ?th ?M E
          "\<lambda>m. d_exp E (d_sub E (?lam ! n ! m) (logp_spec E ?th ?lam n))"]
      by (simp add: lambda_partial_spec_def)
  qed
  have e2': "map (\<lambda>n. zip (handles_vec lambda ! n)
               (map2 (d_add E) (zero_partials ?M)
                  (map2 (d_mul E) (col n (rowwise_sub_exp E ?A ?lp)) ?th))) [0..<?N]
           = map (\<lambda>n. zip (handles_vec lambda ! n)
               (map (lambda_partial_spec E ?th ?lam n) [0..<?M])) [0..<?N]"
    by (rule map_cong [OF refl]) (simp add: e2)
  show ?thesis
    unfolding log_mix_def log_mix_result_def Let_def A sum.case ok lp e1 e2'
    by (simp add: log_mix_value_spec_def build_def push_node_def)
qed

theorem log_mix_value_and_partials_witness:
  "\<not> log_mix_invalid (value_of tape_theta (Vars [0, 1]))
       (value_of_vec tape_theta (Doubles_vec [[Finite (ln (1 / 2)), Finite (ln (3 / 2))]]))
   \<and> log_mix exact (Vars [0, 1])
         (Doubles_vec [[Finite (ln (1 / 2)), Finite (ln (3 / 2))]]) tape_theta
     = (Inr (Var 2),
        tape_theta\<lparr>var_stack := var_stack tape_theta
           @ [\<lparr>val = Finite (ln (1 / 2 * exp (ln (1 / 2)) + 1 / 2 * exp (ln (3 / 2)))),
               adj = Finite 0,
               kind = Partials [(0, Finite (1 / 2)), (1, Finite (3 / 2))]\<rparr>]\<rparr>)"
proof -
  have v: "\<not> log_mix_invalid (value_of tape_theta (Vars [0, 1]))
       (value_of_vec tape_theta (Doubles_vec [[Finite (ln (1 / 2)), Finite (ln (3 / 2))]]))"
    by (simp add: log_mix_invalid_def tape_theta_def)
  have "log_mix exact (Vars [0, 1])
         (Doubles_vec [[Finite (ln (1 / 2)), Finite (ln (3 / 2))]]) tape_theta
     = (Inr (Var 2),
        tape_theta\<lparr>var_stack := var_stack tape_theta
           @ [\<lparr>val = Finite (ln (1 / 2 * exp (ln (1 / 2)) + 1 / 2 * exp (ln (3 / 2)))),
               adj = Finite 0,
               kind = Partials [(0, Finite (1 / 2)), (1, Finite (3 / 2))]\<rparr>]\<rparr>)"
    using log_mix_value_and_partials [OF v, of exact]
    apply (simp add: log_mix_result_def Let_def tape_theta_def log_mix_value_spec_def
        theta_partial_spec_def example_logp)
    apply (simp add: exact_def exact_sum_def)
    done
  with v show ?thesis by (rule conjI)
qed

text \<open>
  Written as an array of two one-element vectors, the example's log densities are
  shorter than \<open>theta\<close>, and the source reads past their end before it checks the sizes.
\<close>

lemma log_mix_two_singletons:
  "log_mix exact (Doubles [Finite (1 / 2), Finite (1 / 2)])
         (Doubles_vec [[Finite (ln (1 / 2))], [Finite (ln (3 / 2))]]) t
   = (Inl (Assertion_failure ''index out of range''), t)"
  by (simp add: log_mix_def lam_dbl_fill_def)

subsection \<open>Rejected inputs\<close>

text \<open>
  Where no \<^verbatim>\<open>lambda[n]\<close> is shorter than \<^verbatim>\<open>theta\<close>, every input the spec has \<^verbatim>\<open>log_mix\<close>
  reject ends in an exception derived from \<^verbatim>\<open>std::exception\<close> with the tape as it was:
  the checks run before \<^verbatim>\<open>operands_and_partials\<close> allocates anything.
\<close>

lemma log_mix_rejects_when_no_short_lambda:
  assumes "log_mix_invalid (value_of t theta) (value_of_vec t lambda)"
    and "\<forall>l\<in>set (value_of_vec t lambda). length_ops theta \<le> length l"
  shows "\<exists>e. log_mix E theta lambda t = (Inl e, t) \<and> is_std_exception e"
proof -
  from assms(1) obtain e
    where e: "log_mix_checks (value_of t theta) (value_of_vec t lambda) = Inl e"
    using log_mix_checks_ok [of "value_of t theta" "value_of_vec t lambda"]
    by (cases "log_mix_checks (value_of t theta) (value_of_vec t lambda)") auto
  have "lam_dbl_fill (length_ops theta) (value_of_vec t lambda)
          = Inr (map (\<lambda>m. map (\<lambda>n. value_of_vec t lambda ! n ! m)
                   [0..<length (value_of_vec t lambda)]) [0..<length_ops theta])"
    by (rule lam_dbl_fill_ok) (rule assms(2))
  then have "log_mix E theta lambda t = (Inl e, t)"
    using e by (simp add: log_mix_def Let_def)
  with log_mix_checks_std [OF e] show ?thesis by blast
qed

text \<open>
  Where some \<^verbatim>\<open>lambda[n]\<close> is shorter than \<^verbatim>\<open>theta\<close>, the call ends in the out-of-bounds
  read, whatever else is wrong with the input.
\<close>

lemma log_mix_short_lambda:
  assumes "\<exists>l\<in>set (value_of_vec t lambda). length l < length_ops theta"
  shows "log_mix E theta lambda t = (Inl (Assertion_failure ''index out of range''), t)"
  using lam_dbl_fill_short [OF assms] by (simp add: log_mix_def Let_def)

text \<open>
  C6 fails on the code for a size mismatch in which a \<^verbatim>\<open>lambda[n]\<close> is shorter than
  \<^verbatim>\<open>theta\<close>. For \<open>theta = {0.5, 0.5}\<close> and the one vector \<open>lambda[0] = {0}\<close> the source
  reads \<^verbatim>\<open>lam_vec[0][1]\<close> past the end of the vector before \<^verbatim>\<open>check_consistent_sizes\<close>
  is reached: the call ends in the out-of-bounds read and not in the reported size
  error that the check, had it come first, would give.
\<close>

theorem log_mix_short_lambda_out_of_bounds:
  "log_mix exact (Doubles [Finite (1 / 2), Finite (1 / 2)]) (Doubles_vec [[Finite 0]]) tape0
     = (Inl (Assertion_failure ''index out of range''), tape0)
   \<and> \<not> is_std_exception (Assertion_failure ''index out of range'')
   \<and> check_consistent_sizes ''log_mix'' ''theta''
        (length_ops (Doubles [Finite (1 / 2), Finite (1 / 2)])) ''lambda'' (length [Finite 0])
      = Inl (Invalid_argument ''log_mix'')"
  by (simp add: log_mix_def lam_dbl_fill_def check_consistent_sizes_def)

section \<open>Properties of the nested-AD mode\<close>

subsection \<open>The reverse pass respects equivalence of tapes\<close>

lemma agree_from_update:
  assumes "agree_from c vs ws" and "c \<le> a \<longrightarrow> d1 = d2"
  shows "agree_from c (vs[a := (vs ! a)\<lparr>adj := d1\<rparr>]) (ws[a := (ws ! a)\<lparr>adj := d2\<rparr>])"
  unfolding agree_from_def
proof (intro conjI allI impI)
  show "length (vs[a := (vs ! a)\<lparr>adj := d1\<rparr>]) = length (ws[a := (ws ! a)\<lparr>adj := d2\<rparr>])"
    using assms(1) by (simp add: agree_from_def)
next
  fix i assume "i < length (vs[a := (vs ! a)\<lparr>adj := d1\<rparr>])"
  then have i: "i < length vs" "i < length ws"
    using assms(1) by (simp_all add: agree_from_def)
  then have old: "val (vs ! i) = val (ws ! i)" "kind (vs ! i) = kind (ws ! i)"
    "c \<le> i \<longrightarrow> adj (vs ! i) = adj (ws ! i)"
    using assms(1) by (simp_all add: agree_from_def)
  show "val (vs[a := (vs ! a)\<lparr>adj := d1\<rparr>] ! i) = val (ws[a := (ws ! a)\<lparr>adj := d2\<rparr>] ! i)"
    using i old by (cases "i = a") simp_all
  show "kind (vs[a := (vs ! a)\<lparr>adj := d1\<rparr>] ! i) = kind (ws[a := (ws ! a)\<lparr>adj := d2\<rparr>] ! i)"
    using i old by (cases "i = a") simp_all
  assume "c \<le> i"
  then show "adj (vs[a := (vs ! a)\<lparr>adj := d1\<rparr>] ! i) = adj (ws[a := (ws ! a)\<lparr>adj := d2\<rparr>] ! i)"
    using i old assms(2) by (cases "i = a") simp_all
qed

lemma agree_from_add_adj:
  assumes "agree_from c vs ws"
  shows "agree_from c (add_adj E a d vs) (add_adj E a d ws)"
proof (cases "a < length vs")
  case True
  then show ?thesis
    unfolding add_adj_def
    using assms by (intro agree_from_update) (auto simp: agree_from_def)
next
  case False
  then show ?thesis using assms by (simp add: add_adj_def agree_from_def)
qed

lemma length_add_adj [simp]: "length (add_adj E a d vs) = length vs"
  by (simp add: add_adj_def)

lemma agree_from_fold_partials:
  assumes "agree_from c vs ws" and "c \<le> i" and "i < length vs"
  shows "agree_from c
           (fold (\<lambda>(a, p) us. add_adj E a (d_mul E (adj (us ! i)) p) us) es vs)
           (fold (\<lambda>(a, p) us. add_adj E a (d_mul E (adj (us ! i)) p) us) es ws)"
  using assms
proof (induction es arbitrary: vs ws)
  case Nil
  then show ?case by simp
next
  case (Cons e es)
  obtain a p where e: "e = (a, p)" by (cases e)
  have eq: "adj (vs ! i) = adj (ws ! i)"
    using Cons.prems by (simp add: agree_from_def)
  have "agree_from c (add_adj E a (d_mul E (adj (vs ! i)) p) vs)
          (add_adj E a (d_mul E (adj (ws ! i)) p) ws)"
    unfolding eq by (rule agree_from_add_adj) (rule Cons.prems)
  then show ?case
    using Cons.IH Cons.prems(2,3) by (simp add: e)
qed

lemma length_fold_partials [simp]:
  "length (fold (\<lambda>(a, p) us. add_adj E a (d_mul E (adj (us ! i)) p) us) es vs) = length vs"
  by (induction es arbitrary: vs) (auto)

lemma length_chain [simp]: "length (chain E i vs) = length vs"
  by (simp add: chain_def split: chain_kind.splits)

lemma agree_from_chain:
  assumes "agree_from c vs ws" and "c \<le> i" and "i < length vs"
  shows "agree_from c (chain E i vs) (chain E i ws)"
proof -
  have k: "kind (vs ! i) = kind (ws ! i)" and a: "adj (vs ! i) = adj (ws ! i)"
    using assms by (simp_all add: agree_from_def)
  show ?thesis
  proof (cases "kind (vs ! i)")
    case Leaf
    then show ?thesis using assms(1) k by (simp add: chain_def)
  next
    case (Log1p_exp_v o1)
    show ?thesis
    proof (cases "o1 < length vs")
      case True
      then have "val (vs ! o1) = val (ws ! o1)" "c \<le> o1 \<longrightarrow> adj (vs ! o1) = adj (ws ! o1)"
        using assms(1) by (simp_all add: agree_from_def)
      then show ?thesis
        using Log1p_exp_v k a agree_from_update [OF assms(1), of o1]
        by (simp add: chain_def log1p_exp_v_vari_chain_def)
    next
      case False
      then show ?thesis
        using Log1p_exp_v k assms(1) by (simp add: chain_def agree_from_def)
    qed
  next
    case (Partials es)
    then show ?thesis
      using k agree_from_fold_partials [OF assms] by (simp add: chain_def)
  qed
qed

lemma agree_from_fold_chain:
  assumes "agree_from c vs ws" and "\<forall>i\<in>set is. c \<le> i \<and> i < length vs"
  shows "agree_from c (fold (chain E) is vs) (fold (chain E) is ws)"
  using assms
proof (induction "is" arbitrary: vs ws)
  case Nil
  then show ?case by simp
next
  case (Cons i "is")
  have "agree_from c (chain E i vs) (chain E i ws)"
    using Cons.prems by (intro agree_from_chain) simp_all
  then show ?case using Cons.IH Cons.prems(2) by simp
qed

lemma length_fold_chain [simp]: "length (fold (chain E) is vs) = length vs"
  by (induction "is" arbitrary: vs) auto

lemma adj_equiv_grad:
  assumes "adj_equiv t1 t2"
  shows "adj_equiv (grad E r t1) (grad E r t2)"
proof -
  let ?c = "nested_begin t1"
  have nb: "nested_begin t2 = ?c"
    using assms by (simp add: adj_equiv_def nested_begin_def)
  have ag: "agree_from ?c (var_stack t1) (var_stack t2)"
    and len: "length (var_stack t1) = length (var_stack t2)"
    using assms by (simp_all add: adj_equiv_def agree_from_def)
  have init: "agree_from ?c ((var_stack t1)[r := (var_stack t1 ! r)\<lparr>adj := Finite 1\<rparr>])
                ((var_stack t2)[r := (var_stack t2 ! r)\<lparr>adj := Finite 1\<rparr>])"
    by (rule agree_from_update [OF ag]) simp
  have "agree_from ?c
          (fold (chain E) (rev [?c..<length (var_stack t1)])
             ((var_stack t1)[r := (var_stack t1 ! r)\<lparr>adj := Finite 1\<rparr>]))
          (fold (chain E) (rev [?c..<length (var_stack t1)])
             ((var_stack t2)[r := (var_stack t2 ! r)\<lparr>adj := Finite 1\<rparr>]))"
    by (rule agree_from_fold_chain [OF init]) simp
  then show ?thesis
    using assms by (simp add: adj_equiv_def grad_def Let_def nb len nested_begin_def)
qed

lemma adj_equiv_set_zero:
  assumes "same_structure t1 t2" and "nested_var_stack_sizes t1 \<noteq> []"
  shows "adj_equiv (set_zero_all_adjoints_nested t1) (set_zero_all_adjoints_nested t2)"
proof -
  obtain c cs where c: "nested_var_stack_sizes t1 = c # cs"
    using assms(2) by (cases "nested_var_stack_sizes t1") auto
  then have c2: "nested_var_stack_sizes t2 = c # cs"
    using assms(1) by (simp add: same_structure_def)
  have len: "length (var_stack t1) = length (var_stack t2)"
    and st: "\<forall>i<length (var_stack t1). val (var_stack t1 ! i) = val (var_stack t2 ! i)
               \<and> kind (var_stack t1 ! i) = kind (var_stack t2 ! i)"
    using assms(1) by (simp_all add: same_structure_def agree_from_def)
  let ?z = "\<lambda>vs. take c vs @ map (\<lambda>v. v\<lparr>adj := Finite 0\<rparr>) (drop c vs)"
  have z1: "set_zero_all_adjoints_nested t1 = t1\<lparr>var_stack := ?z (var_stack t1)\<rparr>"
    and z2: "set_zero_all_adjoints_nested t2 = t2\<lparr>var_stack := ?z (var_stack t2)\<rparr>"
    by (simp_all add: set_zero_all_adjoints_nested_def c c2)
  have nth: "?z vs ! i = (if i < c then vs ! i else (vs ! i)\<lparr>adj := Finite 0\<rparr>)"
    if "i < length vs" for vs :: "vari list" and i
    using that by (auto simp: nth_append min_def)
  have "agree_from c (?z (var_stack t1)) (?z (var_stack t2))"
    unfolding agree_from_def
  proof (intro conjI allI impI)
    show "length (?z (var_stack t1)) = length (?z (var_stack t2))"
      using len by simp
  next
    fix i assume "i < length (?z (var_stack t1))"
    then have i: "i < length (var_stack t1)" "i < length (var_stack t2)"
      using len by simp_all
    show "val (?z (var_stack t1) ! i) = val (?z (var_stack t2) ! i)"
      using st i by (simp add: nth)
    show "kind (?z (var_stack t1) ! i) = kind (?z (var_stack t2) ! i)"
      using st i by (simp add: nth)
    assume "c \<le> i"
    then show "adj (?z (var_stack t1) ! i) = adj (?z (var_stack t2) ! i)"
      using i by (simp add: nth)
  qed
  then show ?thesis
    unfolding z1 z2 by (simp add: adj_equiv_def nested_begin_def c c2)
qed

lemma set_zero_idem:
  "set_zero_all_adjoints_nested (set_zero_all_adjoints_nested t) = set_zero_all_adjoints_nested t"
proof (cases "nested_var_stack_sizes t")
  case Nil
  then show ?thesis by (simp add: set_zero_all_adjoints_nested_def)
next
  case (Cons c cs)
  show ?thesis
  proof (cases "c \<le> length (var_stack t)")
    case True
    then show ?thesis
      by (simp add: set_zero_all_adjoints_nested_def Cons min_def comp_def)
  next
    case False
    then show ?thesis
      by (simp add: set_zero_all_adjoints_nested_def Cons)
  qed
qed

lemma set_zero_nested [simp]:
  "nested_var_stack_sizes (set_zero_all_adjoints_nested t) = nested_var_stack_sizes t"
  by (simp add: set_zero_all_adjoints_nested_def split: list.splits)

lemma set_zero_length [simp]:
  "length (var_stack (set_zero_all_adjoints_nested t)) = length (var_stack t)"
  by (auto simp: set_zero_all_adjoints_nested_def split: list.splits)

lemma grad_nested [simp]: "nested_var_stack_sizes (grad E r t) = nested_var_stack_sizes t"
  by (simp add: grad_def Let_def)

lemma grad_length [simp]: "length (var_stack (grad E r t)) = length (var_stack t)"
  by (simp add: grad_def Let_def)

lemma F_lin_keeps_tape: "keeps_tape F_lin"
  by (simp add: keeps_tape_def F_lin_def push_node_def)

lemma F_domain_keeps_tape: "keeps_tape F_domain"
  by (simp add: keeps_tape_def F_domain_def)

lemma F_lin_adjoint_blind: "adjoint_blind F_lin"
  unfolding adjoint_blind_def
proof (intro allI impI)
  fix x ps t1 t2 assume e: "adj_equiv t1 t2"
  then have len: "length (var_stack t1) = length (var_stack t2)"
    and nb: "nested_begin t2 = nested_begin t1"
    by (simp_all add: adj_equiv_def agree_from_def nested_begin_def)
  show "fst (f_var F_lin x ps t1) = fst (f_var F_lin x ps t2)
      \<and> adj_equiv (snd (f_var F_lin x ps t1)) (snd (f_var F_lin x ps t2))"
  proof (cases "ps \<noteq> [] \<and> hd ps < length (var_stack t1)")
    case True
    then have v: "val (var_stack t1 ! hd ps) = val (var_stack t2 ! hd ps)"
      using e by (simp add: adj_equiv_def agree_from_def)
    show ?thesis
      using True e len
      by (auto simp: F_lin_def push_node_def v adj_equiv_def agree_from_def nested_begin_def
          nth_append)
  next
    case False
    then show ?thesis using e len by (auto simp: F_lin_def)
  qed
qed

subsection \<open>The region stays open while the gradient quadratures run\<close>

lemma run_quad_invariant:
  assumes "\<And>x s. P s \<Longrightarrow> P (snd (h x s))" and "P s"
  shows "P (snd (run_quad q h s))"
  using assms(2)
proof (induction q arbitrary: s)
  case (Done r)
  then show ?case by simp
next
  case (Eval x k)
  obtain r s' where h: "h x s = (r, s')" by (cases "h x s")
  then have "P s'" using assms(1) [OF Eval.prems, of x] by simp
  then show ?case
    using Eval.IH h by (cases r) (auto simp: range_eqI)
qed

lemma gradient_of_f_region:
  assumes "keeps_tape f" and "region_open c cs n t"
  shows "region_open c cs n (snd (gradient_of_f E f x ps pn t))"
proof -
  let ?z = "set_zero_all_adjoints_nested t"
  obtain r u where f: "f_var f x ps ?z = (r, u)" by (cases "f_var f x ps ?z")
  have "nested_var_stack_sizes u = nested_var_stack_sizes t"
    "length (var_stack t) \<le> length (var_stack u)"
    using assms(1) f unfolding keeps_tape_def
    by (metis snd_conv set_zero_nested, metis snd_conv set_zero_length)
  then have "region_open c cs n u"
    using assms(2) by (simp add: region_open_def)
  then show ?thesis
    using f by (cases r) (simp_all add: gradient_of_f_def Let_def region_open_def)
qed

lemma nested_loop_region:
  assumes "keeps_tape f" and "region_open c cs n t"
  shows "region_open c cs n (fst (snd (nested_loop E D f a b tre tae cp ns t)))"
  using assms(2)
proof (induction ns arbitrary: t)
  case Nil
  then show ?case by simp
next
  case (Cons m ns)
  let ?q = "de_integrator D (\<lambda>x. gradient_of_f E f x cp (cp ! m)) a b tre tae t"
  have q: "region_open c cs n (snd ?q)"
    unfolding de_integrator_def
    by (rule run_quad_invariant) (use assms(1) Cons.prems gradient_of_f_region in blast)+
  obtain r t' where qq: "?q = (r, t')" by (cases ?q)
  then have t': "region_open c cs n t'" using q by simp
  show ?case
  proof (cases r)
    case (Inl e)
    then show ?thesis using qq t' by simp
  next
    case (Inr y)
    obtain r2 t2 tr2 where l: "nested_loop E D f a b tre tae cp ns t' = (r2, t2, tr2)"
      by (cases "nested_loop E D f a b tre tae cp ns t'") auto
    then have "region_open c cs n t2" using Cons.IH [OF t'] by simp
    then show ?thesis using qq Inr l by (cases r2) simp_all
  qed
qed

lemma recover_region:
  assumes "region_open c cs n t"
  shows "nested_var_stack_sizes (recover_memory_nested t) = cs"
    and "length (var_stack (recover_memory_nested t)) = c"
  using assms by (simp_all add: region_open_def recover_memory_nested_def)

text \<open>
  Inside \<^verbatim>\<open>integrate_1d_tsc\<close> the region is open at every call of \<^verbatim>\<open>gradient_of_f\<close> and
  the parameter copies \<open>c, \<dots>, c + N - 1\<close> lie in it.
\<close>

lemma to_var_region:
  "to_var ds (start_nested t) = (cp, t2) \<Longrightarrow>
     cp = [length (var_stack t)..<length (var_stack t) + length ds]
   \<and> region_open (length (var_stack t)) (nested_var_stack_sizes t) (length ds) t2"
  by (auto simp: to_var_def start_nested_def region_open_def)

lemma region_open_param:
  "region_open c cs N t \<Longrightarrow> n < N \<Longrightarrow>
     nested_var_stack_sizes t \<noteq> [] \<and> nested_begin t \<le> c + n \<and> c + n < length (var_stack t)"
  by (simp add: region_open_def nested_begin_def)

subsection \<open>What gradient_of_f returns\<close>

lemma set_zero_region:
  assumes "nested_var_stack_sizes t \<noteq> []"
    and "i < length (var_stack t)" and "nested_begin t \<le> i"
  shows "adj (var_stack (set_zero_all_adjoints_nested t) ! i) = Finite 0"
proof -
  obtain c cs where c: "nested_var_stack_sizes t = c # cs"
    using assms(1) by (cases "nested_var_stack_sizes t") auto
  then have "c \<le> i" using assms(3) by (simp add: nested_begin_def)
  then show ?thesis
    using assms(2) by (simp add: set_zero_all_adjoints_nested_def c nth_append min_def)
qed

lemma fold_chain_leaves:
  assumes "\<forall>i\<in>set is. kind (vs ! i) = Leaf"
  shows "fold (chain E) is vs = vs"
  using assms by (induction "is") (simp_all add: chain_def)

lemma gradient_of_f_single_node:
  assumes c: "nested_var_stack_sizes t = c # cs"
    and pn: "c \<le> pn" "pn < length (var_stack t)"
    and leaves: "\<forall>i<length (var_stack t). c \<le> i \<longrightarrow> kind (var_stack t ! i) = Leaf"
    and f: "f_var f x param (set_zero_all_adjoints_nested t)
              = (Inr (length (var_stack t)),
                 (set_zero_all_adjoints_nested t)
                   \<lparr>var_stack := var_stack (set_zero_all_adjoints_nested t)
                      @ [\<lparr>val = y, adj = Finite 0, kind = Partials [(pn, p)]\<rparr>]\<rparr>)"
  shows "fst (gradient_of_f E f x param pn t)
           = Inr (d_add E (Finite 0) (d_mul E (Finite 1) p))"
proof -
  let ?z = "set_zero_all_adjoints_nested t"
  let ?vs = "var_stack ?z"
  let ?n = "length (var_stack t)"
  let ?node = "\<lparr>val = y, adj = Finite 1, kind = Partials [(pn, p)]\<rparr>"
  let ?u = "?z\<lparr>var_stack := ?vs @ [\<lparr>val = y, adj = Finite 0, kind = Partials [(pn, p)]\<rparr>]\<rparr>"
  have len: "length ?vs = ?n" by simp
  have cn: "c \<le> ?n" using pn by simp
  have zadj: "adj (?vs ! pn) = Finite 0"
    using set_zero_region [of t pn] c pn by (simp add: nested_begin_def)
  have zkind: "kind (?vs ! i) = Leaf" if "c \<le> i" "i < ?n" for i
    using that leaves c
    by (simp add: set_zero_all_adjoints_nested_def nth_append min_def)
  let ?ws = "(?vs @ [?node])[pn := ((?vs @ [?node]) ! pn)\<lparr>adj := d_add E (Finite 0) (d_mul E (Finite 1) p)\<rparr>]"
  have seed: "(?vs @ [\<lparr>val = y, adj = Finite 0, kind = Partials [(pn, p)]\<rparr>])
                [?n := ((?vs @ [\<lparr>val = y, adj = Finite 0, kind = Partials [(pn, p)]\<rparr>]) ! ?n)
                         \<lparr>adj := Finite 1\<rparr>] = ?vs @ [?node]"
    using len by (simp add: list_update_append nth_append)
  have top: "chain E ?n (?vs @ [?node]) = ?ws"
    using len pn zadj by (simp add: chain_def add_adj_def nth_append)
  have wkind: "\<forall>i\<in>set (rev [c..<?n]). kind (?ws ! i) = Leaf"
  proof
    fix i assume "i \<in> set (rev [c..<?n])"
    then have i: "c \<le> i" "i < ?n" by simp_all
    then show "kind (?ws ! i) = Leaf"
      using zkind [OF i] len by (cases "i = pn") (simp_all add: nth_append)
  qed
  have "fold (chain E) (rev [c..<Suc ?n]) (?vs @ [?node]) = ?ws"
    using cn top fold_chain_leaves [OF wkind, of E] by simp
  then have g: "var_stack (grad E ?n ?u) = ?ws"
    using seed len c by (simp add: grad_def Let_def nested_begin_def)
  have "adj (?ws ! pn) = d_add E (Finite 0) (d_mul E (Finite 1) p)"
    using pn len by (simp add: nth_append)
  then show ?thesis
    using f g by (simp add: gradient_of_f_def Let_def)
qed




subsection \<open>Leaving the region\<close>

lemma run_quad_done: "run_quad (Done r) h s = (r, s)"
  by simp

lemma run_quad_integrand_throws:
  "h x s = (Inl e, s') \<Longrightarrow> run_quad (Eval x k) h s = (Inl e, s')"
  by simp

lemma gradient_of_f_throws:
  "f_var f x ps (set_zero_all_adjoints_nested t) = (Inl e, u) \<Longrightarrow>
     gradient_of_f E f x ps pn t = (Inl e, u)"
  by (simp add: gradient_of_f_def)

text \<open>An exception thrown by the quadrature itself leaves the region closed as well.\<close>

lemma quadrature_throws_example:
  "integrate_1d_tsc exact fail_on_one F_lin (Finite 1) (Finite 2) (Vars [1]) (Finite 0)
       (Finite 0) tape_a
     = (Inl (Domain_error ''de_integrator'' ''error''), tape_a,
        [Quad_f, Quad_gradient_of_f 0])"
  by (simp add: integrate_1d_tsc_def check_finite_def de_integrator_def fail_on_one_def
        pure_integrand_def F_lin_def f_lin_def tape_a_def start_nested_def to_var_def
        gradient_of_f_def set_zero_all_adjoints_nested_def recover_memory_nested_def
        push_node_def grad_def nested_begin_def chain_def add_adj_def upt_rec exact_def)




end
